theory Spec2Isabelle
  imports Complex_Main "HOL-Library.AList"
begin

section \<open>Data model of the insurance service\<close>

text \<open>
  The embedding follows \<^verbatim>\<open>src/project/src/services/InsuranceService.ts\<close>.
  A JavaScript \<^verbatim>\<open>number\<close> is a \<^typ>\<open>real\<close>; timestamps are added exactly, and the
  premium, a product of fractions, is computed in binary64 arithmetic, each result
  rounded to the nearest double. An optional property is an
  \<^typ>\<open>'a option\<close> with \<^term>\<open>None\<close> for \<^verbatim>\<open>undefined\<close>; an object used as a
  dictionary is a map (keys are assumed not to collide with the properties inherited
  from \<^verbatim>\<open>Object.prototype\<close>), and an association list in insertion order where the
  code enumerates its keys. A thrown \<^verbatim>\<open>TypeError\<close> (property read on
  \<^verbatim>\<open>undefined\<close>) is the value \<open>TypeError\<close>.
\<close>

datatype error = TypeError

record Repairable =
  Durability :: real
  MaxDurability :: "real option"

record FaceShield =
  Hits :: real

record Upd =
  SpawnedInSession :: "bool option"
  Repairable :: "Repairable option"
  FaceShield :: "FaceShield option"

text \<open>
  \<^verbatim>\<open>Item\<close> (\<^verbatim>\<open>models/eft/common/tables/IItem\<close>): \<open>item_id\<close> is \<^verbatim>\<open>_id\<close> and
  \<open>item_tpl\<close> is \<^verbatim>\<open>_tpl\<close>. The type of \<^verbatim>\<open>location\<close> is declared outside the
  sources at hand and never inspected, so it is the parameter \<open>'loc\<close>.
\<close>

record 'loc Item =
  item_id :: string
  item_tpl :: string
  parentId :: "string option"
  slotId :: "string option"
  location :: "'loc option"
  upd :: "Upd option"

record InsuredItem =
  tid :: string
  itemId :: string

text \<open>\<^verbatim>\<open>IInsuredItemsData\<close>: \<open>client_id\<close> is its \<^verbatim>\<open>id\<close>.\<close>

record InsuredItemsData =
  client_id :: string
  durability :: "real option"
  maxDurability :: "real option"
  hits :: "real option"

text \<open>A profile bonus: \<open>bonus_type\<close> is \<^verbatim>\<open>type\<close>, \<open>bonus_value\<close> is \<^verbatim>\<open>value\<close>.\<close>

record Bonus =
  bonus_type :: string
  bonus_value :: real

text \<open>
  \<^verbatim>\<open>IPmcData\<close>, restricted to what the service reads or writes;
  \<open>Inventory_equipment\<close> is \<^verbatim>\<open>Inventory.equipment\<close>.
\<close>

record Profile =
  InsuredItems :: "InsuredItem list"
  Bonuses :: "Bonus list"
  Inventory_equipment :: string

record InsuranceConfig =
  returnTimeOverrideSeconds :: real
  blacklistedEquipment :: "string list"
  insuranceMultiplier :: "string \<rightharpoonup> real"

record TraderInsurance =
  min_return_hour :: real
  max_return_hour :: real
  max_storage_time :: real

record TraderBase =
  insurance :: TraderInsurance

record Dialogue =
  insuranceStart :: "string list"
  insuranceFound :: "string list"
  insuranceFailed :: "string list"
  insuranceFailedLabs :: "string list"

text \<open>An entry of \<^verbatim>\<open>databaseServer.getTables().traders\<close>.\<close>

record Trader =
  dialogue :: "Dialogue option"

record LoyaltyLevel =
  insurance_price_coef :: real

datatype MessageType = NPC_TRADER | INSURANCE_RETURN

record SystemData =
  sys_date :: string
  sys_time :: string
  sys_location :: string

record MessageContent =
  templateId :: string
  msg_type :: MessageType
  maxStorageTime :: real
  msg_text :: "string option"
  profileChangeEvents :: "string list option"
  systemData :: "SystemData option"

text \<open>The record pushed on \<^verbatim>\<open>saveServer.getProfile(sessionID).insurance\<close>.\<close>

record 'loc Insurance =
  scheduledTime :: real
  ins_traderId :: string
  messageContent :: MessageContent
  ins_items :: "'loc Item list option"

text \<open>A call of \<^verbatim>\<open>mailSendService.sendLocalisedNpcMessageToPlayer\<close>.\<close>

record Mail =
  mail_sessionId :: string
  mail_trader :: string
  mail_type :: MessageType
  mail_template :: string
  mail_location :: "string option"

datatype LogEntry = is_Debug: DebugInsuranceOverride real | is_Warning: Warning string | is_Error: Error string

text \<open>
  The collaborators injected into the service, which it only reads; their classes are
  outside the sources at hand, so they are parameters. The random source is a function
  of the number of draws made so far, so that successive draws may differ.
  \<^verbatim>\<open>traderHelper.getTrader\<close> is taken to return a trader base. \<open>PRAPOR\<close> is the constant
  \<^verbatim>\<open>Traders.PRAPOR\<close>.
\<close>

record Env =
  insuranceConfig :: InsuranceConfig
  getTimestamp :: real
  getDateMailFormat :: string
  getTimeMailFormat :: string
  getInt :: "nat \<Rightarrow> real \<Rightarrow> real \<Rightarrow> real"
  getArrayValue :: "nat \<Rightarrow> string list \<Rightarrow> string"
  getTrader :: "string \<Rightarrow> string \<Rightarrow> TraderBase"
  traders :: "string \<rightharpoonup> Trader"
  PRAPOR :: string
  getStaticItemPrice :: "string \<Rightarrow> real"
  getLoyaltyLevel :: "string \<Rightarrow> Profile \<Rightarrow> LoyaltyLevel"
  getText :: "string \<Rightarrow> string \<Rightarrow> string"
  createMessageContext :: "string \<Rightarrow> MessageType \<Rightarrow> real \<Rightarrow> MessageContent"

text \<open>
  The mutable state: the registry \<^verbatim>\<open>this.insured\<close> (per session, the trader buckets in
  insertion order, which is the order \<^verbatim>\<open>for .. in\<close> walks keys that are not array
  indices), the profile objects by reference, the pending returns
  \<^verbatim>\<open>saveServer.getProfile(sessionID).insurance\<close> of each session (the saved profile is
  taken to exist), the calls of \<^verbatim>\<open>dialogueHelper.addDialogueMessage\<close> with the message
  content as it was at the call, the mails sent, the log, and the number of random draws
  made.
\<close>

record 'loc World =
  insured :: "string \<rightharpoonup> (string \<times> 'loc Item list) list"
  profiles :: "nat \<Rightarrow> Profile"
  saveProfiles :: "string \<Rightarrow> 'loc Insurance list"
  dialogues :: "(string \<times> MessageContent \<times> string) list"
  mails :: "Mail list"
  logs :: "LogEntry list"
  randomCalls :: nat

section \<open>The registry\<close>

definition insuranceExists :: "'loc World \<Rightarrow> string \<Rightarrow> bool" where
  "insuranceExists w sessionId = (insured w sessionId \<noteq> None)"

definition getInsurance :: "'loc World \<Rightarrow> string \<Rightarrow> (string \<times> 'loc Item list) list option" where
  "getInsurance w sessionId = insured w sessionId"

text \<open>\<^verbatim>\<open>this.insured[sessionId][traderId]\<close> throws when \<^verbatim>\<open>this.insured[sessionId]\<close> is undefined.\<close>

definition getInsuranceItems :: "'loc World \<Rightarrow> string \<Rightarrow> string \<Rightarrow> error + 'loc Item list option" where
  "getInsuranceItems w sessionId traderId =
     (case insured w sessionId of
        None \<Rightarrow> Inl TypeError
      | Some buckets \<Rightarrow> Inr (map_of buckets traderId))"

definition resetInsurance :: "string \<Rightarrow> 'loc World \<Rightarrow> 'loc World" where
  "resetInsurance sessionId w = w\<lparr>insured := (insured w)(sessionId \<mapsto> [])\<rparr>"

definition emptyWorld :: "'loc World" where
  "emptyWorld = \<lparr>insured = Map.empty, profiles = (\<lambda>_. \<lparr>InsuredItems = [], Bonuses = [], Inventory_equipment = []\<rparr>),
     saveProfiles = (\<lambda>_. []), dialogues = [], mails = [], logs = [], randomCalls = 0\<rparr>"

text \<open>
  \<^verbatim>\<open>insuranceTraderArrayExists\<close>, \<^verbatim>\<open>resetInsuranceTraderArray\<close> and
  \<^verbatim>\<open>addInsuranceItemToArray\<close> index \<^verbatim>\<open>this.insured[sessionId]\<close> unguarded. Assigning
  a property of an object keeps the position of an existing key and appends a new one,
  which is what \<^const>\<open>AList.update\<close> does.
\<close>

definition insuranceTraderArrayExists :: "'loc World \<Rightarrow> string \<Rightarrow> string \<Rightarrow> error + bool" where
  "insuranceTraderArrayExists w sessionId traderId =
     (case insured w sessionId of
        None \<Rightarrow> Inl TypeError
      | Some buckets \<Rightarrow> Inr (map_of buckets traderId \<noteq> None))"

definition resetInsuranceTraderArray :: "string \<Rightarrow> string \<Rightarrow> 'loc World \<Rightarrow> error + 'loc World" where
  "resetInsuranceTraderArray sessionId traderId w =
     (case insured w sessionId of
        None \<Rightarrow> Inl TypeError
      | Some buckets \<Rightarrow> Inr (w\<lparr>insured := (insured w)(sessionId \<mapsto> AList.update traderId [] buckets)\<rparr>))"

definition addInsuranceItemToArray :: "string \<Rightarrow> string \<Rightarrow> 'loc Item \<Rightarrow> 'loc World \<Rightarrow> error + 'loc World" where
  "addInsuranceItemToArray sessionId traderId itemToAdd w =
     (case insured w sessionId of
        None \<Rightarrow> Inl TypeError
      | Some buckets \<Rightarrow>
          (case map_of buckets traderId of
             None \<Rightarrow> Inl TypeError
           | Some bucket \<Rightarrow>
               Inr (w\<lparr>insured := (insured w)(sessionId \<mapsto> AList.update traderId (bucket @ [itemToAdd]) buckets)\<rparr>)))"

section \<open>Normalising an item for its return\<close>

definition pocketSlots :: "string list" where
  "pocketSlots = [''pocket1'', ''pocket2'', ''pocket3'', ''pocket4'']"

definition updateSlotIdValue :: "string \<Rightarrow> 'loc Item \<Rightarrow> 'loc Item" where
  "updateSlotIdValue playerBaseInventoryEquipmentId itemToReturn =
     (let item1 = (if (case slotId itemToReturn of None \<Rightarrow> True | Some s \<Rightarrow> s \<in> set pocketSlots)
                   then itemToReturn\<lparr>slotId := Some ''hideout''\<rparr> else itemToReturn)
      in if parentId item1 = Some playerBaseInventoryEquipmentId
         then item1\<lparr>slotId := Some ''hideout''\<rparr> else item1)"

text \<open>A number read as a condition: absent and zero are false.\<close>

definition truthy :: "real option \<Rightarrow> bool" where
  "truthy n = (case n of None \<Rightarrow> False | Some d \<Rightarrow> d \<noteq> 0)"

definition emptyUpd :: Upd where
  "emptyUpd = \<lparr>SpawnedInSession = None, Repairable = None, FaceShield = None\<rparr>"

text \<open>
  \<^verbatim>\<open>getInsuredItemDetails\<close> works on a clone of the pre-raid item. Its \<^verbatim>\<open>upd\<close> exists
  from the first step on and \<^verbatim>\<open>updateSlotIdValue\<close> does not touch it, so the model
  carries it as the value \<open>u0 .. u3\<close> and stores it at the end. Of the profile only
  \<^verbatim>\<open>Inventory.equipment\<close> is read.
\<close>

definition getInsuredItemDetails ::
  "Profile \<Rightarrow> 'loc Item \<Rightarrow> InsuredItemsData option \<Rightarrow> 'loc Item" where
  "getInsuredItemDetails pmcData preRaidItem insuredItemFromClient =
     (let u0 = (case upd preRaidItem of None \<Rightarrow> emptyUpd | Some u \<Rightarrow> u);
          item1 = updateSlotIdValue (Inventory_equipment pmcData) (preRaidItem\<lparr>upd := Some u0\<rparr>);
          item2 = (if slotId item1 = Some ''hideout'' \<and> location item1 \<noteq> None
                   then item1\<lparr>location := None\<rparr> else item1);
          u1 = (if SpawnedInSession u0 \<noteq> None then u0\<lparr>SpawnedInSession := Some False\<rparr> else u0);
          u2 = (case insuredItemFromClient of
                  None \<Rightarrow> u1
                | Some client \<Rightarrow>
                    (case durability client of
                       None \<Rightarrow> u1
                     | Some d \<Rightarrow>
                         if d = 0 then u1
                         else (case Repairable u1 of
                                 None \<Rightarrow> u1\<lparr>Repairable := Some \<lparr>Durability = d, MaxDurability = maxDurability client\<rparr>\<rparr>
                               | Some r \<Rightarrow> u1\<lparr>Repairable := Some (r\<lparr>Durability := d, MaxDurability := maxDurability client\<rparr>)\<rparr>)));
          u3 = (case insuredItemFromClient of
                  None \<Rightarrow> u2
                | Some client \<Rightarrow>
                    (case hits client of
                       None \<Rightarrow> u2
                     | Some h \<Rightarrow>
                         if h = 0 then u2
                         else (case FaceShield u2 of
                                 None \<Rightarrow> u2\<lparr>FaceShield := Some \<lparr>Hits = h\<rparr>\<rparr>
                               | Some f \<Rightarrow> u2\<lparr>FaceShield := Some (f\<lparr>Hits := h\<rparr>)\<rparr>)))
      in item2\<lparr>upd := Some u3\<rparr>)"

section \<open>Resolving the gear lost in a raid\<close>

text \<open>\<^verbatim>\<open>createItemHashTable\<close>: a later item overwrites an earlier one of the same id.\<close>

fun createItemHashTable_loop :: "'loc Item list \<Rightarrow> (string \<rightharpoonup> 'loc Item) \<Rightarrow> (string \<rightharpoonup> 'loc Item)" where
  "createItemHashTable_loop [] hashTable = hashTable"
| "createItemHashTable_loop (item # rest) hashTable =
     createItemHashTable_loop rest (hashTable(item_id item \<mapsto> item))"

definition createItemHashTable :: "'loc Item list \<Rightarrow> (string \<rightharpoonup> 'loc Item)" where
  "createItemHashTable itms = createItemHashTable_loop itms Map.empty"

text \<open>\<^verbatim>\<open>ISaveProgressRequestData\<close>: \<^verbatim>\<open>profile.Inventory.items\<close> and the optional \<^verbatim>\<open>insurance\<close>.\<close>

record 'loc SaveProgressRequestData =
  profile_Inventory_items :: "'loc Item list"
  offraid_insurance :: "InsuredItemsData list option"

text \<open>
  An element of \<^verbatim>\<open>equipmentToSendToPlayer\<close>. Its \<^verbatim>\<open>pmcData\<close> is a reference to the
  profile object, not a copy: \<open>gear_pmcData\<close> is the address of the profile in
  \<^const>\<open>profiles\<close>.
\<close>

record 'loc Gear =
  gear_pmcData :: nat
  itemToReturnToPlayer :: "'loc Item"
  gear_traderId :: string
  gear_sessionID :: string

definition blacklisted :: "Env \<Rightarrow> 'loc Item \<Rightarrow> bool" where
  "blacklisted env preRaidItem =
     (case slotId preRaidItem of
        None \<Rightarrow> False
      | Some s \<Rightarrow> s \<in> set (blacklistedEquipment (insuranceConfig env)))"

text \<open>The first loop of \<^verbatim>\<open>storeLostGear\<close>, over \<^verbatim>\<open>pmcData.InsuredItems\<close>.\<close>

fun equipmentToSendToPlayer ::
  "Env \<Rightarrow> nat \<Rightarrow> Profile \<Rightarrow> 'loc SaveProgressRequestData \<Rightarrow> (string \<rightharpoonup> 'loc Item) \<Rightarrow>
   (string \<rightharpoonup> 'loc Item) \<Rightarrow> string \<Rightarrow> bool \<Rightarrow> InsuredItem list \<Rightarrow> 'loc Gear list" where
  "equipmentToSendToPlayer env pmcRef pmcData offraidData preRaidGearHash offRaidGearHash sessionID playerDied [] = []"
| "equipmentToSendToPlayer env pmcRef pmcData offraidData preRaidGearHash offRaidGearHash sessionID playerDied (insuredItem # rest) =
     (let more = equipmentToSendToPlayer env pmcRef pmcData offraidData preRaidGearHash offRaidGearHash sessionID playerDied rest
      in case preRaidGearHash (itemId insuredItem) of
           None \<Rightarrow> more
         | Some preRaidItem \<Rightarrow>
             if blacklisted env preRaidItem then more
             else if offRaidGearHash (itemId insuredItem) = None \<or> playerDied
             then \<lparr>gear_pmcData = pmcRef,
                   itemToReturnToPlayer =
                     getInsuredItemDetails pmcData preRaidItem
                       (case offraid_insurance offraidData of
                          None \<Rightarrow> None
                        | Some clientItems \<Rightarrow> find (\<lambda>x. client_id x = itemId insuredItem) clientItems),
                   gear_traderId = tid insuredItem,
                   gear_sessionID = sessionID\<rparr> # more
             else more)"

definition addGearToSend :: "'loc Gear \<Rightarrow> 'loc World \<Rightarrow> error + 'loc World" where
  "addGearToSend gear w =
     (let sessionId = gear_sessionID gear;
          pmcData = gear_pmcData gear;
          traderId = gear_traderId gear;
          w1 = (if \<not> insuranceExists w sessionId then resetInsurance sessionId w else w)
      in case insuranceTraderArrayExists w1 sessionId traderId of
           Inl e \<Rightarrow> Inl e
         | Inr exists_bucket \<Rightarrow>
             (case (if \<not> exists_bucket then resetInsuranceTraderArray sessionId traderId w1 else Inr w1) of
                Inl e \<Rightarrow> Inl e
              | Inr w2 \<Rightarrow>
                  (case addInsuranceItemToArray sessionId traderId (itemToReturnToPlayer gear) w2 of
                     Inl e \<Rightarrow> Inl e
                   | Inr w3 \<Rightarrow>
                       Inr (w3\<lparr>profiles := (profiles w3)(pmcData :=
                              (profiles w3 pmcData)\<lparr>InsuredItems :=
                                 filter (\<lambda>item. itemId item \<noteq> item_id (itemToReturnToPlayer gear))
                                   (InsuredItems (profiles w3 pmcData))\<rparr>)\<rparr>))))"

text \<open>The second loop of \<^verbatim>\<open>storeLostGear\<close>; an exception ends it.\<close>

fun processGear :: "'loc Gear list \<Rightarrow> 'loc World \<Rightarrow> error + 'loc World" where
  "processGear [] w = Inr w"
| "processGear (gear # rest) w =
     (case addGearToSend gear w of
        Inl e \<Rightarrow> Inl e
      | Inr w' \<Rightarrow> processGear rest w')"

definition storeLostGear ::
  "Env \<Rightarrow> nat \<Rightarrow> 'loc SaveProgressRequestData \<Rightarrow> 'loc Item list \<Rightarrow> string \<Rightarrow> bool \<Rightarrow> 'loc World \<Rightarrow>
   error + 'loc World" where
  "storeLostGear env pmcData offraidData preRaidGear sessionID playerDied w =
     (let preRaidGearHash = createItemHashTable preRaidGear;
          offRaidGearHash = createItemHashTable (profile_Inventory_items offraidData)
      in processGear
           (equipmentToSendToPlayer env pmcData (profiles w pmcData) offraidData preRaidGearHash
              offRaidGearHash sessionID playerDied (InsuredItems (profiles w pmcData)))
           w)"

section \<open>Scheduling the return\<close>

text \<open>
  Modelled from the spec: \<^verbatim>\<open>TimeUtil.oneHourAsSeconds\<close>, a constant of a class outside the
  sources at hand; the spec (4.4) multiplies the hours by 3600.
\<close>

definition oneHourAsSeconds :: real where
  "oneHourAsSeconds = 3600"

definition getInsuranceReturnTimestamp ::
  "Env \<Rightarrow> Profile \<Rightarrow> TraderBase \<Rightarrow> 'loc World \<Rightarrow> real \<times> 'loc World" where
  "getInsuranceReturnTimestamp env pmcData trader w =
     (if returnTimeOverrideSeconds (insuranceConfig env) > 0
      then (getTimestamp env + returnTimeOverrideSeconds (insuranceConfig env),
            w\<lparr>logs := logs w @ [DebugInsuranceOverride (returnTimeOverrideSeconds (insuranceConfig env))]\<rparr>)
      else
        (let insuranceReturnTimeBonus = find (\<lambda>b. bonus_type b = ''InsuranceReturnTime'') (Bonuses pmcData);
             insuranceReturnTimeBonusPercent =
               1 - (case insuranceReturnTimeBonus of
                      Some b \<Rightarrow> \<bar>bonus_value b\<bar>
                    | None \<Rightarrow> 0) / 100;
             traderMinReturnAsSeconds = min_return_hour (insurance trader) * oneHourAsSeconds;
             traderMaxReturnAsSeconds = max_return_hour (insurance trader) * oneHourAsSeconds;
             randomisedReturnTimeSeconds =
               getInt env (randomCalls w) traderMinReturnAsSeconds traderMaxReturnAsSeconds
         in (getTimestamp env + randomisedReturnTimeSeconds * insuranceReturnTimeBonusPercent,
             w\<lparr>randomCalls := Suc (randomCalls w)\<rparr>)))"

section \<open>The premium\<close>

text \<open>
  The arithmetic of \<^verbatim>\<open>number\<close>: IEEE 754 binary64 with rounding to nearest, ties to even.
  \<open>toDouble x\<close> is the double nearest to \<open>x\<close>: with \<open>e\<close> the binary exponent of \<open>x\<close>, not
  below that of the subnormal numbers, the doubles around \<open>x\<close> are the multiples of
  \<open>2 ^ (e - 52)\<close>. Overflow to an infinity, \<^verbatim>\<open>NaN\<close> and the sign of zero are not modelled.
\<close>

fun bitLength :: "nat \<Rightarrow> nat" where
  "bitLength n = (if n = 0 then 0 else Suc (bitLength (n div 2)))"

declare bitLength.simps [simp del]

text \<open>The \<open>e\<close> with \<open>2 ^ e \<le> a < 2 ^ (e + 1)\<close>, for a positive \<open>a\<close>.\<close>

definition binaryExponent :: "real \<Rightarrow> int" where
  "binaryExponent a =
     (if 1 \<le> a then int (bitLength (nat \<lfloor>a\<rfloor>)) - 1
      else - int (bitLength (nat (\<lceil>1 / a\<rceil> - 1))))"

definition roundHalfEven :: "real \<Rightarrow> int" where
  "roundHalfEven m =
     (let f = \<lfloor>m\<rfloor>; d = m - of_int f
      in if d < 1 / 2 then f else if 1 / 2 < d then f + 1 else if even f then f else f + 1)"

definition toDouble :: "real \<Rightarrow> real" where
  "toDouble x =
     (if x = 0 then 0
      else
        (let a = \<bar>x\<bar>;
             e = max (binaryExponent a) (- 1022);
             ulp = (if 52 \<le> e then 2 ^ nat (e - 52) else 1 / 2 ^ nat (52 - e))
         in sgn x * (of_int (roundHalfEven (a / ulp)) * ulp)))"

text \<open>The operators \<^verbatim>\<open>*\<close>, \<^verbatim>\<open>-\<close> and \<^verbatim>\<open>/\<close> on doubles.\<close>

definition times_double :: "real \<Rightarrow> real \<Rightarrow> real" where
  "times_double a b = toDouble (a * b)"

definition minus_double :: "real \<Rightarrow> real \<Rightarrow> real" where
  "minus_double a b = toDouble (a - b)"

definition divide_double :: "real \<Rightarrow> real \<Rightarrow> real" where
  "divide_double a b = toDouble (a / b)"

text \<open>
  \<^verbatim>\<open>Math.round\<close> gives the nearest integer, a half towards plus infinity; it is exact on
  a double.
\<close>

definition Math_round :: "real \<Rightarrow> int" where
  "Math_round x = \<lfloor>x + 1 / 2\<rfloor>"

text \<open>
  \<^verbatim>\<open>!insuranceMultiplier\<close> holds of a missing multiplier and of the multiplier 0. The
  literal \<^verbatim>\<open>0.3\<close> is the double nearest to three tenths.
\<close>

definition getPremium :: "Env \<Rightarrow> Profile \<Rightarrow> 'loc Item \<Rightarrow> string \<Rightarrow> 'loc World \<Rightarrow> int \<times> 'loc World" where
  "getPremium env pmcData inventoryItem traderId w =
     (let configured = insuranceMultiplier (insuranceConfig env) traderId;
          missing = \<not> truthy configured;
          multiplier = (case configured of
                          None \<Rightarrow> toDouble (3 / 10)
                        | Some m \<Rightarrow> if m = 0 then toDouble (3 / 10) else m);
          w' = (if missing
                then w\<lparr>logs := logs w @ [Warning (getText env ''insurance-missing_insurance_price_multiplier'' traderId)]\<rparr>
                else w);
          pricePremium = times_double (getStaticItemPrice env (item_tpl inventoryItem)) multiplier;
          coef = insurance_price_coef (getLoyaltyLevel env traderId pmcData);
          pricePremium' = (if coef > 0
                           then times_double pricePremium
                                  (minus_double 1
                                     (divide_double (insurance_price_coef (getLoyaltyLevel env traderId pmcData)) 100))
                           else pricePremium)
      in (Math_round pricePremium', w'))"

section \<open>The message for lost insurance\<close>

text \<open>
  \<^verbatim>\<open>String.prototype.toLowerCase\<close> on the characters a \<^typ>\<open>string\<close> holds: the letters
  \<^verbatim>\<open>A\<close> to \<^verbatim>\<open>Z\<close> go to \<^verbatim>\<open>a\<close> to \<^verbatim>\<open>z\<close>, every other character of the ASCII range stays.
  Characters beyond ASCII are not modelled; the case mapping of JavaScript sends none of
  them to a letter of \<^verbatim>\<open>laboratory\<close>.
\<close>

definition toLowerCase_char :: "char \<Rightarrow> char" where
  "toLowerCase_char c =
     (if 65 \<le> (of_char c :: nat) \<and> (of_char c :: nat) \<le> 90
      then char_of ((of_char c :: nat) + 32) else c)"

definition toLowerCase :: "string \<Rightarrow> string" where
  "toLowerCase s = map toLowerCase_char s"

text \<open>
  \<open>locationName\<close> is \<^term>\<open>None\<close> for a \<^verbatim>\<open>null\<close> argument, on which
  \<^verbatim>\<open>locationName?.toLowerCase()\<close> is \<^verbatim>\<open>undefined\<close>; an omitted argument is the default
  \<^term>\<open>Some []\<close>.
\<close>

definition sendLostInsuranceMessage :: "Env \<Rightarrow> string \<Rightarrow> string option \<Rightarrow> 'loc World \<Rightarrow> error + 'loc World" where
  "sendLostInsuranceMessage env sessionId locationName w =
     (case traders env (PRAPOR env) of
        None \<Rightarrow> Inl TypeError
      | Some trader \<Rightarrow>
          (case dialogue trader of
             None \<Rightarrow> Inl TypeError
           | Some dialogueTemplates \<Rightarrow>
               (let randomResponseId =
                      (if map_option toLowerCase locationName = Some ''laboratory''
                       then getArrayValue env (randomCalls w) (insuranceFailedLabs dialogueTemplates)
                       else getArrayValue env (randomCalls w) (insuranceFailed dialogueTemplates))
                in Inr (w\<lparr>randomCalls := Suc (randomCalls w),
                          mails := mails w @
                            [\<lparr>mail_sessionId = sessionId, mail_trader = PRAPOR env, mail_type = NPC_TRADER,
                              mail_template = randomResponseId, mail_location = locationName\<rparr>]\<rparr>))))"

text \<open>
  The spec's words: two names are equal case-insensitively when they have the same
  length and agree, position by position, up to the case of the letters.
\<close>

definition equal_ignoring_case :: "string \<Rightarrow> string \<Rightarrow> bool" where
  "equal_ignoring_case s t = list_all2 (\<lambda>a b. toLowerCase_char a = toLowerCase_char b) s t"

section \<open>Sending the insured items\<close>

text \<open>
  \<^verbatim>\<open>removeLocationProperty\<close> updates the items of the bucket in place while it walks the
  bucket: \<open>seen\<close> holds the items already visited, as the loop left them, and the parent
  is looked up in the array as it stands at that moment.
\<close>

fun removeLocationProperty_loop :: "'loc Item list \<Rightarrow> 'loc Item list \<Rightarrow> 'loc Item list" where
  "removeLocationProperty_loop seen [] = seen"
| "removeLocationProperty_loop seen (insuredItem # rest) =
     (let insuredItems = seen @ insuredItem # rest;
          insuredItemsParent = find (\<lambda>x. Some (item_id x) = parentId insuredItem) insuredItems
      in removeLocationProperty_loop
           (seen @ [if insuredItemsParent = None
                    then insuredItem\<lparr>slotId := Some ''hideout'', location := None\<rparr>
                    else insuredItem])
           rest)"

definition removeLocationProperty :: "string \<Rightarrow> string \<Rightarrow> 'loc World \<Rightarrow> error + 'loc World" where
  "removeLocationProperty sessionId traderId w =
     (case getInsurance w sessionId of
        None \<Rightarrow> Inl TypeError
      | Some buckets \<Rightarrow>
          (case map_of buckets traderId of
             None \<Rightarrow> Inl TypeError
           | Some insuredItems \<Rightarrow>
               Inr (w\<lparr>insured := (insured w)(sessionId \<mapsto>
                      AList.update traderId (removeLocationProperty_loop [] insuredItems) buckets)\<rparr>)))"

text \<open>
  The body of the loop of \<^verbatim>\<open>sendInsuredItems\<close> for one trader. The result is the
  exception thrown, if any, and the state reached. \<^verbatim>\<open>dialogueTemplates.insuranceStart\<close>
  is the first read of the dialogue templates.
\<close>

definition sendInsuredItems_body ::
  "Env \<Rightarrow> Profile \<Rightarrow> string \<Rightarrow> string \<Rightarrow> string \<Rightarrow> 'loc World \<Rightarrow> error option \<times> 'loc World" where
  "sendInsuredItems_body env pmcData sessionID mapId traderId w =
     (let traderBase = getTrader env traderId sessionID;
          (insuranceReturnTimestamp, w1) = getInsuranceReturnTimestamp env pmcData traderBase w
      in case traders env traderId of
           None \<Rightarrow> (Some TypeError, w1)
         | Some trader \<Rightarrow>
             (case dialogue trader of
                None \<Rightarrow> (Some TypeError, w1)
              | Some dialogueTemplates \<Rightarrow>
                  (let startTemplate = getArrayValue env (randomCalls w1) (insuranceStart dialogueTemplates);
                       w2 = w1\<lparr>randomCalls := Suc (randomCalls w1)\<rparr>;
                       content =
                         (createMessageContext env startTemplate NPC_TRADER (max_storage_time (insurance traderBase)))
                           \<lparr>msg_text := Some [], profileChangeEvents := Some [],
                            systemData := Some \<lparr>sys_date = getDateMailFormat env,
                                                sys_time = getTimeMailFormat env,
                                                sys_location = mapId\<rparr>\<rparr>;
                       w3 = w2\<lparr>dialogues := dialogues w2 @ [(traderId, content, sessionID)]\<rparr>
                   in case removeLocationProperty sessionID traderId w3 of
                        Inl e \<Rightarrow> (Some e, w3)
                      | Inr w4 \<Rightarrow>
                          (let foundTemplate = getArrayValue env (randomCalls w4) (insuranceFound dialogueTemplates);
                               w5 = w4\<lparr>randomCalls := Suc (randomCalls w4)\<rparr>;
                               content' = content\<lparr>templateId := foundTemplate, msg_type := INSURANCE_RETURN\<rparr>
                           in case getInsurance w5 sessionID of
                                None \<Rightarrow> (Some TypeError, w5)
                              | Some buckets \<Rightarrow>
                                  (None,
                                   w5\<lparr>saveProfiles := (saveProfiles w5)(sessionID :=
                                         saveProfiles w5 sessionID @
                                           [\<lparr>scheduledTime = insuranceReturnTimestamp,
                                             ins_traderId = traderId,
                                             messageContent = content',
                                             ins_items = map_of buckets traderId\<rparr>])\<rparr>)))))"

fun sendInsuredItems_loop ::
  "Env \<Rightarrow> Profile \<Rightarrow> string \<Rightarrow> string \<Rightarrow> string list \<Rightarrow> 'loc World \<Rightarrow> error option \<times> 'loc World" where
  "sendInsuredItems_loop env pmcData sessionID mapId [] w = (None, w)"
| "sendInsuredItems_loop env pmcData sessionID mapId (traderId # rest) w =
     (case sendInsuredItems_body env pmcData sessionID mapId traderId w of
        (Some e, w') \<Rightarrow> (Some e, w')
      | (None, w') \<Rightarrow> sendInsuredItems_loop env pmcData sessionID mapId rest w')"

text \<open>
  \<^verbatim>\<open>for (const traderId in this.getInsurance(sessionID))\<close> walks the keys the registry
  entry has when the loop starts, none if there is no entry; \<^verbatim>\<open>resetInsurance\<close> runs
  after the loop, so not after an exception.
\<close>

definition sendInsuredItems ::
  "Env \<Rightarrow> Profile \<Rightarrow> string \<Rightarrow> string \<Rightarrow> 'loc World \<Rightarrow> error option \<times> 'loc World" where
  "sendInsuredItems env pmcData sessionID mapId w =
     (case sendInsuredItems_loop env pmcData sessionID mapId
             (case getInsurance w sessionID of None \<Rightarrow> [] | Some buckets \<Rightarrow> map fst buckets) w of
        (Some e, w') \<Rightarrow> (Some e, w')
      | (None, w') \<Rightarrow> (None, resetInsurance sessionID w'))"

section \<open>Notions used in the statements\<close>

text \<open>
  The spec's words (4.2): an insured item qualifies for return when it is in the pre-raid
  table, its pre-raid slot is not excluded, and it is absent from the post-raid table or
  the player died.
\<close>

definition qualifies_for_return ::
  "Env \<Rightarrow> (string \<rightharpoonup> 'loc Item) \<Rightarrow> (string \<rightharpoonup> 'loc Item) \<Rightarrow> bool \<Rightarrow> InsuredItem \<Rightarrow> bool" where
  "qualifies_for_return env preRaidGearHash offRaidGearHash playerDied insuredItem =
     (case preRaidGearHash (itemId insuredItem) of
        None \<Rightarrow> False
      | Some preRaidItem \<Rightarrow>
          \<not> blacklisted env preRaidItem \<and> (offRaidGearHash (itemId insuredItem) = None \<or> playerDied))"

text \<open>What a trader's bucket of a session holds, nothing if there is no such bucket.\<close>

definition bucketItems :: "'loc World \<Rightarrow> string \<Rightarrow> string \<Rightarrow> 'loc Item list" where
  "bucketItems w sessionId traderId =
     (case insured w sessionId of
        None \<Rightarrow> []
      | Some buckets \<Rightarrow> (case map_of buckets traderId of None \<Rightarrow> [] | Some bucket \<Rightarrow> bucket))"

text \<open>A table in which every item is stored under its own id.\<close>

definition keyed_by_id :: "(string \<rightharpoonup> 'loc Item) \<Rightarrow> bool" where
  "keyed_by_id h = (\<forall>k item. h k = Some item \<longrightarrow> item_id item = k)"

section \<open>Concrete inputs\<close>

definition dialogue0 :: Dialogue where
  "dialogue0 = \<lparr>insuranceStart = [''start0''], insuranceFound = [''found0''],
                 insuranceFailed = [''failed0''], insuranceFailedLabs = [''labs0'']\<rparr>"

definition config0 :: InsuranceConfig where
  "config0 = \<lparr>returnTimeOverrideSeconds = 0, blacklistedEquipment = [''SecuredContainer''],
               insuranceMultiplier = map_of [(''prapor'', toDouble (3 / 10)), (''therapist'', 0)]\<rparr>"

definition traderBase0 :: TraderBase where
  "traderBase0 = \<lparr>insurance = \<lparr>min_return_hour = 24, max_return_hour = 36, max_storage_time = 72\<rparr>\<rparr>"

definition env0 :: Env where
  "env0 = \<lparr>insuranceConfig = config0,
            getTimestamp = 1000,
            getDateMailFormat = ''01.01.2024'',
            getTimeMailFormat = ''12:00'',
            getInt = (\<lambda>n lo hi. lo),
            getArrayValue = (\<lambda>n xs. case xs of [] \<Rightarrow> [] | x # _ \<Rightarrow> x),
            getTrader = (\<lambda>traderId sessionID. traderBase0),
            traders = map_of [(''prapor'', \<lparr>dialogue = Some dialogue0\<rparr>), (''therapist'', \<lparr>dialogue = None\<rparr>)],
            PRAPOR = ''prapor'',
            getStaticItemPrice = (\<lambda>tpl. 1000),
            getLoyaltyLevel = (\<lambda>traderId pmcData. \<lparr>insurance_price_coef = 10\<rparr>),
            getText = (\<lambda>key arg. key),
            createMessageContext = (\<lambda>template ty maxStoreTime.
              \<lparr>templateId = template, msg_type = ty, maxStorageTime = maxStoreTime,
               msg_text = None, profileChangeEvents = None, systemData = None\<rparr>)\<rparr>"

definition insuredA :: InsuredItem where
  "insuredA = \<lparr>tid = ''prapor'', itemId = ''a''\<rparr>"

definition insuredB :: InsuredItem where
  "insuredB = \<lparr>tid = ''prapor'', itemId = ''b''\<rparr>"

definition profile0 :: Profile where
  "profile0 = \<lparr>InsuredItems = [insuredA, insuredB], Bonuses = [], Inventory_equipment = ''equipment''\<rparr>"

definition itemA :: "nat Item" where
  "itemA = \<lparr>item_id = ''a'', item_tpl = ''tplA'', parentId = Some ''backpack'',
            slotId = Some ''pocket1'', location = Some 2, upd = None\<rparr>"

definition itemB :: "nat Item" where
  "itemB = \<lparr>item_id = ''b'', item_tpl = ''tplB'', parentId = Some ''equipment'',
            slotId = Some ''SecuredContainer'', location = None, upd = None\<rparr>"

text \<open>An item attached to \<open>itemA\<close>.\<close>

definition itemChild :: "nat Item" where
  "itemChild = \<lparr>item_id = ''c'', item_tpl = ''tplC'', parentId = Some ''a'',
            slotId = Some ''mod_scope'', location = Some 1, upd = None\<rparr>"

definition offraid0 :: "nat SaveProgressRequestData" where
  "offraid0 = \<lparr>profile_Inventory_items = [], offraid_insurance = None\<rparr>"

definition world0 :: "nat World" where
  "world0 = emptyWorld\<lparr>profiles := (\<lambda>r. profile0)\<rparr>"

definition worldTherapist :: "nat World" where
  "worldTherapist = emptyWorld\<lparr>insured := [''session'' \<mapsto> [(''therapist'', [itemA])]]\<rparr>"

definition worldBucket :: "nat World" where
  "worldBucket = emptyWorld\<lparr>insured := [''session'' \<mapsto> [(''prapor'', [itemA, itemChild])]]\<rparr>"

section \<open>The registry accessors\<close>

text \<open>
  C9, as amended. \<^verbatim>\<open>getInsurance\<close> returns for every session id the stored buckets,
  or nothing when the registry has no entry for the session. \<^verbatim>\<open>getInsuranceItems\<close>
  returns exactly when the registry has an entry for the session (the bucket of the trader,
  or nothing when the entry has no such bucket) and throws a \<^verbatim>\<open>TypeError\<close> otherwise.
\<close>

theorem registry_accessors:
  "getInsurance w sessionId = insured w sessionId
   \<and> ((\<exists>r. getInsuranceItems w sessionId traderId = Inr r) \<longleftrightarrow> insuranceExists w sessionId)
   \<and> (getInsuranceItems w sessionId traderId = Inl TypeError \<longleftrightarrow> \<not> insuranceExists w sessionId)
   \<and> (\<forall>buckets. insured w sessionId = Some buckets \<longrightarrow>
         getInsuranceItems w sessionId traderId = Inr (map_of buckets traderId))"
  by (simp add: getInsurance_def getInsuranceItems_def insuranceExists_def split: option.splits)

theorem registry_accessors_witness:
  "insured worldTherapist ''session'' = Some [(''therapist'', [itemA])]
   \<and> getInsuranceItems worldTherapist ''session'' ''therapist'' = Inr (Some [itemA])
   \<and> getInsuranceItems worldTherapist ''session'' ''prapor'' = Inr None"
  using registry_accessors [of worldTherapist "''session''" "''therapist''"]
    registry_accessors [of worldTherapist "''session''" "''prapor''"]
  by (simp add: worldTherapist_def emptyWorld_def)

text \<open>With no registry entry for the session, \<^verbatim>\<open>getInsuranceItems\<close> throws.\<close>

theorem getInsuranceItems_counterexample:
  "insured (emptyWorld :: nat World) ''session'' = None
   \<and> getInsuranceItems (emptyWorld :: nat World) ''session'' ''prapor'' = Inl TypeError"
  by (simp add: getInsuranceItems_def emptyWorld_def)

section \<open>The return timestamp\<close>

text \<open>
  C3. When the configured \<^verbatim>\<open>returnTimeOverrideSeconds\<close> is positive,
  \<^verbatim>\<open>getInsuranceReturnTimestamp\<close> returns the current time plus the override, whatever
  the profile's bonuses and the trader's return hours are.
\<close>

theorem return_timestamp_override:
  assumes "0 < returnTimeOverrideSeconds (insuranceConfig env)"
  shows "fst (getInsuranceReturnTimestamp env pmcData trader w)
           = getTimestamp env + returnTimeOverrideSeconds (insuranceConfig env)"
  using assms by (simp add: getInsuranceReturnTimestamp_def)

theorem return_timestamp_override_witness:
  "0 < returnTimeOverrideSeconds (insuranceConfig (env0\<lparr>insuranceConfig := config0\<lparr>returnTimeOverrideSeconds := 120\<rparr>\<rparr>))
   \<and> fst (getInsuranceReturnTimestamp (env0\<lparr>insuranceConfig := config0\<lparr>returnTimeOverrideSeconds := 120\<rparr>\<rparr>)
              profile0 traderBase0 world0) = 1120"
proof -
  have h: "0 < returnTimeOverrideSeconds (insuranceConfig (env0\<lparr>insuranceConfig := config0\<lparr>returnTimeOverrideSeconds := 120\<rparr>\<rparr>))"
    by simp
  from return_timestamp_override [OF h, of profile0 traderBase0 world0] h
  show ?thesis by (simp add: env0_def)
qed

text \<open>
  C4. When the override is 0, the profile's \<^verbatim>\<open>InsuranceReturnTime\<close> bonus is absent or
  has the value 0, and the random draw lies between the trader's minimum and maximum
  return time in seconds, the timestamp returned lies between the current time plus the
  minimum and the current time plus the maximum.
\<close>

theorem return_timestamp_range:
  assumes "returnTimeOverrideSeconds (insuranceConfig env) = 0"
    and "case find (\<lambda>b. bonus_type b = ''InsuranceReturnTime'') (Bonuses pmcData) of
           None \<Rightarrow> True | Some b \<Rightarrow> bonus_value b = 0"
    and "min_return_hour (insurance trader) * 3600
           \<le> getInt env (randomCalls w) (min_return_hour (insurance trader) * 3600)
                (max_return_hour (insurance trader) * 3600)"
    and "getInt env (randomCalls w) (min_return_hour (insurance trader) * 3600)
           (max_return_hour (insurance trader) * 3600)
           \<le> max_return_hour (insurance trader) * 3600"
  shows "getTimestamp env + min_return_hour (insurance trader) * 3600
           \<le> fst (getInsuranceReturnTimestamp env pmcData trader w)
       \<and> fst (getInsuranceReturnTimestamp env pmcData trader w)
           \<le> getTimestamp env + max_return_hour (insurance trader) * 3600"
  using assms
  by (simp add: getInsuranceReturnTimestamp_def oneHourAsSeconds_def Let_def split: option.splits)

theorem return_timestamp_range_witness:
  "returnTimeOverrideSeconds (insuranceConfig env0) = 0
   \<and> find (\<lambda>b. bonus_type b = ''InsuranceReturnTime'') (Bonuses profile0) = None
   \<and> getInt env0 (randomCalls world0) (24 * 3600) (36 * 3600) = 86400
   \<and> 1000 + 24 * 3600 \<le> fst (getInsuranceReturnTimestamp env0 profile0 traderBase0 world0)
   \<and> fst (getInsuranceReturnTimestamp env0 profile0 traderBase0 world0) \<le> 1000 + 36 * 3600"
proof -
  have h1: "returnTimeOverrideSeconds (insuranceConfig env0) = 0"
    by (simp add: env0_def config0_def)
  have h2: "find (\<lambda>b. bonus_type b = ''InsuranceReturnTime'') (Bonuses profile0) = None"
    by (simp add: profile0_def)
  have h2': "case find (\<lambda>b. bonus_type b = ''InsuranceReturnTime'') (Bonuses profile0) of
           None \<Rightarrow> True | Some b \<Rightarrow> bonus_value b = 0"
    by (simp add: h2)
  have h3: "min_return_hour (insurance traderBase0) * 3600
           \<le> getInt env0 (randomCalls world0) (min_return_hour (insurance traderBase0) * 3600)
                (max_return_hour (insurance traderBase0) * 3600)"
    by (simp add: env0_def)
  have h4: "getInt env0 (randomCalls world0) (min_return_hour (insurance traderBase0) * 3600)
           (max_return_hour (insurance traderBase0) * 3600)
           \<le> max_return_hour (insurance traderBase0) * 3600"
    by (simp add: env0_def traderBase0_def)
  from return_timestamp_range [OF h1 h2' h3 h4] h1 h2
  show ?thesis by (simp add: env0_def traderBase0_def)
qed

section \<open>The premium\<close>

text \<open>
  With a multiplier other than 0 configured, the premium is the rounded product of the
  base price, the multiplier and, for a positive coefficient, \<open>1 - coef / 100\<close>, in the
  arithmetic of doubles, and nothing is logged. With none configured, or 0, the
  multiplier 0.3 takes its place and a warning is logged.
\<close>

lemma getPremium_configured:
  assumes "insuranceMultiplier (insuranceConfig env) traderId = Some m" and "m \<noteq> 0"
  shows "getPremium env pmcData inventoryItem traderId w =
     (Math_round
        (if 0 < insurance_price_coef (getLoyaltyLevel env traderId pmcData)
         then times_double (times_double (getStaticItemPrice env (item_tpl inventoryItem)) m)
                (minus_double 1 (divide_double (insurance_price_coef (getLoyaltyLevel env traderId pmcData)) 100))
         else times_double (getStaticItemPrice env (item_tpl inventoryItem)) m), w)"
  using assms by (simp add: getPremium_def truthy_def Let_def)

lemma getPremium_fallback:
  assumes "insuranceMultiplier (insuranceConfig env) traderId = None
           \<or> insuranceMultiplier (insuranceConfig env) traderId = Some 0"
  shows "getPremium env pmcData inventoryItem traderId w =
     (Math_round
        (if 0 < insurance_price_coef (getLoyaltyLevel env traderId pmcData)
         then times_double (times_double (getStaticItemPrice env (item_tpl inventoryItem)) (toDouble (3 / 10)))
                (minus_double 1 (divide_double (insurance_price_coef (getLoyaltyLevel env traderId pmcData)) 100))
         else times_double (getStaticItemPrice env (item_tpl inventoryItem)) (toDouble (3 / 10))),
      w\<lparr>logs := logs w @ [Warning (getText env ''insurance-missing_insurance_price_multiplier'' traderId)]\<rparr>)"
  using assms by (auto simp: getPremium_def truthy_def Let_def)

lemma premium_1000_03_10:
  "Math_round (times_double (times_double 1000 (toDouble (3 / 10)))
                 (minus_double 1 (divide_double 10 100))) = 270"
  by code_simp

lemma premium_1000_0_10:
  "Math_round (times_double (times_double 1000 0) (minus_double 1 (divide_double 10 100))) = 0"
  by code_simp

text \<open>The base price 1000, the configured multiplier 0.3 and the coefficient 10 give 270.\<close>

lemma getPremium_example:
  "getPremium env0 profile0 itemA ''prapor'' world0 = (270, world0)"
proof -
  have m: "insuranceMultiplier (insuranceConfig env0) ''prapor'' = Some (toDouble (3 / 10))"
    by (simp add: env0_def config0_def)
  have nz: "toDouble (3 / 10) \<noteq> 0"
    by code_simp
  have e: "getStaticItemPrice env0 (item_tpl itemA) = 1000"
    "insurance_price_coef (getLoyaltyLevel env0 ''prapor'' profile0) = 10"
    by (simp_all add: env0_def)
  show ?thesis
    unfolding getPremium_configured [OF m nz] e using premium_1000_03_10 by simp
qed

text \<open>
  C5, at a configured multiplier 0. The claim gives the premium
  \<open>round (1000 * 0 * (1 - 10 / 100)) = 0\<close> there; \<^verbatim>\<open>getPremium\<close> takes the multiplier 0 for a
  missing one, computes with 0.3, returns 270 and logs the warning about a missing
  multiplier.
\<close>

theorem getPremium_zero_multiplier:
  "insuranceMultiplier (insuranceConfig env0) ''therapist'' = Some 0
   \<and> getStaticItemPrice env0 (item_tpl itemA) = 1000
   \<and> insurance_price_coef (getLoyaltyLevel env0 ''therapist'' profile0) = 10
   \<and> Math_round (times_double (times_double 1000 0) (minus_double 1 (divide_double 10 100))) = 0
   \<and> getPremium env0 profile0 itemA ''therapist'' world0 =
       (270, world0\<lparr>logs := logs world0 @
                       [Warning (getText env0 ''insurance-missing_insurance_price_multiplier'' ''therapist'')]\<rparr>)"
proof -
  have m: "insuranceMultiplier (insuranceConfig env0) ''therapist'' = Some 0"
    by (simp add: env0_def config0_def)
  have e: "getStaticItemPrice env0 (item_tpl itemA) = 1000"
    "insurance_price_coef (getLoyaltyLevel env0 ''therapist'' profile0) = 10"
    by (simp_all add: env0_def)
  have g: "getPremium env0 profile0 itemA ''therapist'' world0 =
       (270, world0\<lparr>logs := logs world0 @
                       [Warning (getText env0 ''insurance-missing_insurance_price_multiplier'' ''therapist'')]\<rparr>)"
    unfolding getPremium_fallback [OF disjI2 [OF m]] e using premium_1000_03_10 by simp
  from m e premium_1000_0_10 g show ?thesis by (intro conjI)
qed

section \<open>Normalisation of a returned item\<close>

text \<open>
  The wear merged from the client only reaches \<^verbatim>\<open>upd\<close>: up to that field the result is
  the pre-raid item after the slot and location rules.
\<close>

lemma getInsuredItemDetails_shape:
  "\<exists>u. getInsuredItemDetails pmcData preRaidItem client =
     (let item1 = updateSlotIdValue (Inventory_equipment pmcData)
                    (preRaidItem\<lparr>upd := Some (case upd preRaidItem of None \<Rightarrow> emptyUpd | Some u \<Rightarrow> u)\<rparr>)
      in if slotId item1 = Some ''hideout'' \<and> location item1 \<noteq> None
         then item1\<lparr>location := None\<rparr> else item1)\<lparr>upd := Some u\<rparr>"
  unfolding getInsuredItemDetails_def Let_def by (rule exI) (rule refl)

lemma getInsuredItemDetails_fields:
  "item_id (getInsuredItemDetails pmcData preRaidItem client) = item_id preRaidItem"
  "parentId (getInsuredItemDetails pmcData preRaidItem client) = parentId preRaidItem"
  "slotId (getInsuredItemDetails pmcData preRaidItem client) =
     (if (case slotId preRaidItem of None \<Rightarrow> True | Some s \<Rightarrow> s \<in> set pocketSlots)
         \<or> parentId preRaidItem = Some (Inventory_equipment pmcData)
      then Some ''hideout'' else slotId preRaidItem)"
  "location (getInsuredItemDetails pmcData preRaidItem client) =
     (if slotId (getInsuredItemDetails pmcData preRaidItem client) = Some ''hideout''
      then None else location preRaidItem)"
proof -
  obtain u where shape: "getInsuredItemDetails pmcData preRaidItem client =
     (let item1 = updateSlotIdValue (Inventory_equipment pmcData)
                    (preRaidItem\<lparr>upd := Some (case upd preRaidItem of None \<Rightarrow> emptyUpd | Some u \<Rightarrow> u)\<rparr>)
      in if slotId item1 = Some ''hideout'' \<and> location item1 \<noteq> None
         then item1\<lparr>location := None\<rparr> else item1)\<lparr>upd := Some u\<rparr>"
    using getInsuredItemDetails_shape by blast
  show "item_id (getInsuredItemDetails pmcData preRaidItem client) = item_id preRaidItem"
    unfolding shape by (simp add: updateSlotIdValue_def Let_def)
  show "parentId (getInsuredItemDetails pmcData preRaidItem client) = parentId preRaidItem"
    unfolding shape by (simp add: updateSlotIdValue_def Let_def)
  show s: "slotId (getInsuredItemDetails pmcData preRaidItem client) =
     (if (case slotId preRaidItem of None \<Rightarrow> True | Some s \<Rightarrow> s \<in> set pocketSlots)
         \<or> parentId preRaidItem = Some (Inventory_equipment pmcData)
      then Some ''hideout'' else slotId preRaidItem)"
    unfolding shape by (simp add: updateSlotIdValue_def Let_def)
  show "location (getInsuredItemDetails pmcData preRaidItem client) =
     (if slotId (getInsuredItemDetails pmcData preRaidItem client) = Some ''hideout''
      then None else location preRaidItem)"
    unfolding s unfolding shape by (auto simp: updateSlotIdValue_def Let_def)
qed

text \<open>
  C6. Normalising the result of \<^verbatim>\<open>getInsuredItemDetails\<close> once more, for the same profile
  and with any client wear data, leaves its \<^verbatim>\<open>slotId\<close> and its \<^verbatim>\<open>location\<close> as they are.
\<close>

theorem getInsuredItemDetails_idempotent:
  "slotId (getInsuredItemDetails pmcData (getInsuredItemDetails pmcData preRaidItem client) client')
     = slotId (getInsuredItemDetails pmcData preRaidItem client)
   \<and> location (getInsuredItemDetails pmcData (getInsuredItemDetails pmcData preRaidItem client) client')
     = location (getInsuredItemDetails pmcData preRaidItem client)"
proof -
  have slot: "slotId (getInsuredItemDetails pmcData (getInsuredItemDetails pmcData preRaidItem client) client')
     = slotId (getInsuredItemDetails pmcData preRaidItem client)"
    by (simp add: getInsuredItemDetails_fields(2,3) pocketSlots_def split: option.splits)
  have "location (getInsuredItemDetails pmcData (getInsuredItemDetails pmcData preRaidItem client) client')
     = location (getInsuredItemDetails pmcData preRaidItem client)"
    unfolding getInsuredItemDetails_fields(4) [of pmcData "getInsuredItemDetails pmcData preRaidItem client"] slot
    by (simp add: getInsuredItemDetails_fields(4))
  with slot show ?thesis by simp
qed

theorem getInsuredItemDetails_idempotent_witness:
  "slotId (getInsuredItemDetails profile0 itemA None) = Some ''hideout''
   \<and> location (getInsuredItemDetails profile0 itemA None) = None
   \<and> slotId (getInsuredItemDetails profile0 (getInsuredItemDetails profile0 itemA None) None) = Some ''hideout''
   \<and> location (getInsuredItemDetails profile0 (getInsuredItemDetails profile0 itemA None) None) = None"
proof -
  have s: "slotId (getInsuredItemDetails profile0 itemA None) = Some ''hideout''"
    by (simp add: getInsuredItemDetails_fields(3) itemA_def pocketSlots_def)
  then have l: "location (getInsuredItemDetails profile0 itemA None) = None"
    by (simp add: getInsuredItemDetails_fields(4))
  from getInsuredItemDetails_idempotent [of profile0 itemA None None] s l
  show ?thesis by simp
qed

section \<open>The message for lost insurance\<close>

lemma toLowerCase_laboratory: "toLowerCase ''laboratory'' = ''laboratory''"
  by code_simp

lemma equal_ignoring_case_toLowerCase:
  "equal_ignoring_case s t \<longleftrightarrow> toLowerCase s = toLowerCase t"
  unfolding equal_ignoring_case_def toLowerCase_def
  by (induction s arbitrary: t) (auto simp: list_all2_Cons1)

text \<open>
  C7. With the dialogue templates of the sending trader loaded, \<^verbatim>\<open>sendLostInsuranceMessage\<close>
  sends one mail whose template is drawn from \<^verbatim>\<open>insuranceFailedLabs\<close> when the location
  name equals \<^verbatim>\<open>laboratory\<close> up to the case of its letters, and from \<^verbatim>\<open>insuranceFailed\<close>
  otherwise (also for a \<^verbatim>\<open>null\<close> location name).
\<close>

theorem sendLostInsuranceMessage_template:
  assumes "traders env (PRAPOR env) = Some trader"
    and "dialogue trader = Some dialogueTemplates"
  shows "sendLostInsuranceMessage env sessionId locationName w =
     Inr (w\<lparr>randomCalls := Suc (randomCalls w),
            mails := mails w @
              [\<lparr>mail_sessionId = sessionId, mail_trader = PRAPOR env, mail_type = NPC_TRADER,
                mail_template = getArrayValue env (randomCalls w)
                  (if (case locationName of None \<Rightarrow> False
                       | Some name \<Rightarrow> equal_ignoring_case name ''laboratory'')
                   then insuranceFailedLabs dialogueTemplates
                   else insuranceFailed dialogueTemplates),
                mail_location = locationName\<rparr>]\<rparr>)"
proof (cases locationName)
  case None
  with assms show ?thesis by (simp add: sendLostInsuranceMessage_def)
next
  case (Some name)
  have "(toLowerCase name = ''laboratory'') \<longleftrightarrow> equal_ignoring_case name ''laboratory''"
    by (simp only: equal_ignoring_case_toLowerCase toLowerCase_laboratory)
  with Some assms show ?thesis by (simp add: sendLostInsuranceMessage_def)
qed

theorem sendLostInsuranceMessage_template_witness:
  "traders env0 (PRAPOR env0) = Some \<lparr>dialogue = Some dialogue0\<rparr>
   \<and> map mail_template (mails (case sendLostInsuranceMessage env0 ''session'' (Some ''Laboratory'') world0 of
                                  Inr w' \<Rightarrow> w' | Inl e \<Rightarrow> world0)) = [''labs0'']
   \<and> map mail_template (mails (case sendLostInsuranceMessage env0 ''session'' (Some ''factory4_day'') world0 of
                                  Inr w' \<Rightarrow> w' | Inl e \<Rightarrow> world0)) = [''failed0'']"
proof -
  have t: "traders env0 (PRAPOR env0) = Some \<lparr>dialogue = Some dialogue0\<rparr>"
    by (simp add: env0_def)
  have d: "dialogue \<lparr>dialogue = Some dialogue0\<rparr> = Some dialogue0"
    by simp
  have lab: "equal_ignoring_case ''Laboratory'' ''laboratory''"
    by code_simp
  have fac: "\<not> equal_ignoring_case ''factory4_day'' ''laboratory''"
    by code_simp
  have m: "mails world0 = []"
    by (simp add: world0_def emptyWorld_def)
  have pick: "getArrayValue env0 (randomCalls world0) (insuranceFailedLabs dialogue0) = ''labs0''"
    "getArrayValue env0 (randomCalls world0) (insuranceFailed dialogue0) = ''failed0''"
    by (simp_all add: env0_def dialogue0_def)
  from sendLostInsuranceMessage_template [OF t d, of "''session''" "Some ''Laboratory''" world0]
    sendLostInsuranceMessage_template [OF t d, of "''session''" "Some ''factory4_day''" world0]
    t lab fac m pick
  show ?thesis by simp
qed


section \<open>Resolving the lost gear\<close>

lemma createItemHashTable_loop_keyed:
  "keyed_by_id h \<Longrightarrow> keyed_by_id (createItemHashTable_loop xs h)"
proof (induction xs arbitrary: h)
  case Nil
  then show ?case by simp
next
  case (Cons x xs)
  from Cons.prems have "keyed_by_id (h(item_id x \<mapsto> x))"
    by (simp add: keyed_by_id_def)
  then show ?case using Cons.IH by simp
qed

lemma createItemHashTable_keyed: "keyed_by_id (createItemHashTable xs)"
  using createItemHashTable_loop_keyed [of Map.empty xs]
  by (simp add: keyed_by_id_def createItemHashTable_def)

lemma qualifies_same_id:
  "itemId e' = itemId e \<Longrightarrow>
   qualifies_for_return env pre off died e' = qualifies_for_return env pre off died e"
  by (simp add: qualifies_for_return_def split: option.splits)

text \<open>
  Each candidate comes from one qualifying reference, in the order of the references:
  it carries the item id and the trader of its reference, the profile and the session.
\<close>

lemma candidates_step:
  assumes "keyed_by_id pre"
  shows "map (\<lambda>g. (item_id (itemToReturnToPlayer g), gear_traderId g, gear_pmcData g, gear_sessionID g))
       (equipmentToSendToPlayer env r p od pre off sid died (e # es))
   = (if qualifies_for_return env pre off died e then [(itemId e, tid e, r, sid)] else [])
     @ map (\<lambda>g. (item_id (itemToReturnToPlayer g), gear_traderId g, gear_pmcData g, gear_sessionID g))
       (equipmentToSendToPlayer env r p od pre off sid died es)"
proof (cases "pre (itemId e)")
  case None
  then show ?thesis by (simp add: qualifies_for_return_def)
next
  case (Some preRaidItem)
  with assms have "item_id preRaidItem = itemId e" by (simp add: keyed_by_id_def)
  with Some show ?thesis
    by (simp add: qualifies_for_return_def Let_def getInsuredItemDetails_fields(1))
qed

lemma candidates_map:
  assumes "keyed_by_id pre"
  shows "map (\<lambda>g. (item_id (itemToReturnToPlayer g), gear_traderId g, gear_pmcData g, gear_sessionID g))
       (equipmentToSendToPlayer env r p od pre off sid died es)
   = map (\<lambda>e. (itemId e, tid e, r, sid)) (filter (qualifies_for_return env pre off died) es)"
proof (induction es)
  case Nil
  show ?case by simp
next
  case (Cons e es)
  show ?case unfolding candidates_step [OF assms] Cons.IH by simp
qed

lemma candidates_ids:
  assumes "keyed_by_id pre"
  shows "map (\<lambda>g. item_id (itemToReturnToPlayer g))
           (filter (\<lambda>g. gear_traderId g = t) (equipmentToSendToPlayer env r p od pre off sid died es))
         = map itemId (filter (\<lambda>e. qualifies_for_return env pre off died e \<and> tid e = t) es)"
proof -
  let ?gs = "equipmentToSendToPlayer env r p od pre off sid died es"
  let ?proj = "\<lambda>g. (item_id (itemToReturnToPlayer g), gear_traderId g, gear_pmcData g, gear_sessionID g)"
  let ?proj' = "\<lambda>e. (itemId e, tid e, r, sid)"
  let ?Q = "\<lambda>x :: string \<times> string \<times> nat \<times> string. fst (snd x) = t"
  have "filter ?Q (map ?proj ?gs) = filter ?Q (map ?proj' (filter (qualifies_for_return env pre off died) es))"
    by (simp only: candidates_map [OF assms])
  then have "map fst (filter ?Q (map ?proj ?gs))
           = map fst (filter ?Q (map ?proj' (filter (qualifies_for_return env pre off died) es)))"
    by (rule arg_cong)
  then show ?thesis by (simp add: filter_map comp_def)
qed

lemma candidates_refs:
  assumes "keyed_by_id pre"
    and "g \<in> set (equipmentToSendToPlayer env r p od pre off sid died es)"
  shows "gear_pmcData g = r \<and> gear_sessionID g = sid"
proof -
  let ?proj = "\<lambda>g. (item_id (itemToReturnToPlayer g), gear_traderId g, gear_pmcData g, gear_sessionID g)"
  from assms(2) have "?proj g \<in> set (map ?proj (equipmentToSendToPlayer env r p od pre off sid died es))"
    by (simp only: set_map) (rule imageI)
  then have "?proj g \<in> set (map (\<lambda>e. (itemId e, tid e, r, sid)) (filter (qualifies_for_return env pre off died) es))"
    by (simp only: candidates_map [OF assms(1)])
  then show ?thesis by auto
qed

text \<open>
  C1. For every entry of the profile's \<^verbatim>\<open>InsuredItems\<close>, the candidates of
  \<^verbatim>\<open>storeLostGear\<close>, which it hands to \<^verbatim>\<open>addGearToSend\<close> one by one, hold a candidate for
  the item of that entry and its trader exactly when the item is in the pre-raid table,
  its pre-raid slot is not blacklisted, and it is absent from the post-raid table or the
  player died.
\<close>

theorem storeLostGear_candidates:
  assumes "insuredItem \<in> set (InsuredItems (profiles w pmcData))"
  shows "storeLostGear env pmcData offraidData preRaidGear sessionID playerDied w =
           processGear
             (equipmentToSendToPlayer env pmcData (profiles w pmcData) offraidData
                (createItemHashTable preRaidGear)
                (createItemHashTable (profile_Inventory_items offraidData))
                sessionID playerDied (InsuredItems (profiles w pmcData))) w
     \<and> ((\<exists>gear \<in> set (equipmentToSendToPlayer env pmcData (profiles w pmcData) offraidData
                (createItemHashTable preRaidGear)
                (createItemHashTable (profile_Inventory_items offraidData))
                sessionID playerDied (InsuredItems (profiles w pmcData))).
            item_id (itemToReturnToPlayer gear) = itemId insuredItem
            \<and> gear_traderId gear = tid insuredItem)
          \<longleftrightarrow> qualifies_for_return env (createItemHashTable preRaidGear)
                (createItemHashTable (profile_Inventory_items offraidData)) playerDied insuredItem)"
proof -
  let ?pre = "createItemHashTable preRaidGear"
  let ?off = "createItemHashTable (profile_Inventory_items offraidData)"
  let ?es = "InsuredItems (profiles w pmcData)"
  let ?gs = "equipmentToSendToPlayer env pmcData (profiles w pmcData) offraidData ?pre ?off
               sessionID playerDied ?es"
  let ?proj = "\<lambda>g. (item_id (itemToReturnToPlayer g), gear_traderId g, gear_pmcData g, gear_sessionID g)"
  let ?q = "qualifies_for_return env ?pre ?off playerDied"
  have cm: "map ?proj ?gs = map (\<lambda>e. (itemId e, tid e, pmcData, sessionID)) (filter ?q ?es)"
    by (rule candidates_map [OF createItemHashTable_keyed])
  have "(\<exists>gear \<in> set ?gs. item_id (itemToReturnToPlayer gear) = itemId insuredItem
            \<and> gear_traderId gear = tid insuredItem)
        \<longleftrightarrow> (\<exists>x \<in> set (map ?proj ?gs). fst x = itemId insuredItem \<and> fst (snd x) = tid insuredItem)"
    by (simp add: Bex_def; blast)
  also have "\<dots> \<longleftrightarrow> (\<exists>e \<in> set ?es. ?q e \<and> itemId e = itemId insuredItem \<and> tid e = tid insuredItem)"
    unfolding cm by (simp add: Bex_def; blast)
  also have "\<dots> \<longleftrightarrow> ?q insuredItem"
    using assms qualifies_same_id [of _ insuredItem env ?pre ?off playerDied] by blast
  finally show ?thesis by (simp add: storeLostGear_def Let_def)
qed

theorem storeLostGear_candidates_witness:
  "insuredA \<in> set (InsuredItems (profiles world0 0))
   \<and> (\<exists>gear \<in> set (equipmentToSendToPlayer env0 0 (profiles world0 0) offraid0
                (createItemHashTable [itemA, itemB])
                (createItemHashTable (profile_Inventory_items offraid0))
                ''session'' False (InsuredItems (profiles world0 0))).
            item_id (itemToReturnToPlayer gear) = itemId insuredA
            \<and> gear_traderId gear = tid insuredA)
   \<and> insuredB \<in> set (InsuredItems (profiles world0 0))
   \<and> \<not> (\<exists>gear \<in> set (equipmentToSendToPlayer env0 0 (profiles world0 0) offraid0
                (createItemHashTable [itemA, itemB])
                (createItemHashTable (profile_Inventory_items offraid0))
                ''session'' False (InsuredItems (profiles world0 0))).
            item_id (itemToReturnToPlayer gear) = itemId insuredB
            \<and> gear_traderId gear = tid insuredB)"
proof -
  have a: "insuredA \<in> set (InsuredItems (profiles world0 0))"
    and b: "insuredB \<in> set (InsuredItems (profiles world0 0))"
    by (simp_all add: world0_def profile0_def)
  have qa: "qualifies_for_return env0 (createItemHashTable [itemA, itemB])
              (createItemHashTable (profile_Inventory_items offraid0)) False insuredA"
    by (simp add: qualifies_for_return_def createItemHashTable_def blacklisted_def env0_def
        config0_def itemA_def itemB_def insuredA_def offraid0_def)
  have qb: "\<not> qualifies_for_return env0 (createItemHashTable [itemA, itemB])
              (createItemHashTable (profile_Inventory_items offraid0)) False insuredB"
    by (simp add: qualifies_for_return_def createItemHashTable_def blacklisted_def env0_def
        config0_def itemA_def itemB_def insuredB_def offraid0_def)
  from storeLostGear_candidates [OF a, of env0 offraid0 "[itemA, itemB]" "''session''" False]
    storeLostGear_candidates [OF b, of env0 offraid0 "[itemA, itemB]" "''session''" False]
    a b qa qb
  show ?thesis by blast
qed

text \<open>
  \<^verbatim>\<open>addGearToSend\<close> never throws: it creates the registry entry and the trader's bucket
  when they are missing, appends the item, and removes from the profile every reference
  to the item's id.
\<close>

lemma addGearToSend_result:
  "addGearToSend g w =
     Inr (w\<lparr>insured := (insured w)(gear_sessionID g \<mapsto>
              AList.update (gear_traderId g)
                (bucketItems w (gear_sessionID g) (gear_traderId g) @ [itemToReturnToPlayer g])
                (case insured w (gear_sessionID g) of None \<Rightarrow> [] | Some b \<Rightarrow> b)),
            profiles := (profiles w)(gear_pmcData g :=
              (profiles w (gear_pmcData g))\<lparr>InsuredItems :=
                 filter (\<lambda>i. itemId i \<noteq> item_id (itemToReturnToPlayer g))
                   (InsuredItems (profiles w (gear_pmcData g)))\<rparr>)\<rparr>)"
proof (cases "insured w (gear_sessionID g)")
  case None
  then show ?thesis
    by (simp add: addGearToSend_def Let_def insuranceExists_def resetInsurance_def
        insuranceTraderArrayExists_def resetInsuranceTraderArray_def addInsuranceItemToArray_def
        bucketItems_def)
next
  case (Some bs)
  show ?thesis
  proof (cases "map_of bs (gear_traderId g)")
    case None
    with Some show ?thesis
      by (simp add: addGearToSend_def Let_def insuranceExists_def
          insuranceTraderArrayExists_def resetInsuranceTraderArray_def addInsuranceItemToArray_def
          bucketItems_def update_conv')
  next
    case (Some bk)
    with \<open>insured w (gear_sessionID g) = Some bs\<close> show ?thesis
      by (simp add: addGearToSend_def Let_def insuranceExists_def
          insuranceTraderArrayExists_def addInsuranceItemToArray_def bucketItems_def)
  qed
qed

lemma addGearToSend_insured:
  assumes "addGearToSend g w = Inr w'"
  shows "insured w' = (insured w)(gear_sessionID g \<mapsto>
              AList.update (gear_traderId g)
                (bucketItems w (gear_sessionID g) (gear_traderId g) @ [itemToReturnToPlayer g])
                (case insured w (gear_sessionID g) of None \<Rightarrow> [] | Some b \<Rightarrow> b))"
proof -
  from assms have "w' = w\<lparr>insured := (insured w)(gear_sessionID g \<mapsto>
              AList.update (gear_traderId g)
                (bucketItems w (gear_sessionID g) (gear_traderId g) @ [itemToReturnToPlayer g])
                (case insured w (gear_sessionID g) of None \<Rightarrow> [] | Some b \<Rightarrow> b)),
            profiles := (profiles w)(gear_pmcData g :=
              (profiles w (gear_pmcData g))\<lparr>InsuredItems :=
                 filter (\<lambda>i. itemId i \<noteq> item_id (itemToReturnToPlayer g))
                   (InsuredItems (profiles w (gear_pmcData g)))\<rparr>)\<rparr>"
    unfolding addGearToSend_result by simp
  then show ?thesis by simp
qed

lemma addGearToSend_profiles:
  assumes "addGearToSend g w = Inr w'"
  shows "profiles w' = (profiles w)(gear_pmcData g :=
              (profiles w (gear_pmcData g))\<lparr>InsuredItems :=
                 filter (\<lambda>i. itemId i \<noteq> item_id (itemToReturnToPlayer g))
                   (InsuredItems (profiles w (gear_pmcData g)))\<rparr>)"
proof -
  from assms have "w' = w\<lparr>insured := (insured w)(gear_sessionID g \<mapsto>
              AList.update (gear_traderId g)
                (bucketItems w (gear_sessionID g) (gear_traderId g) @ [itemToReturnToPlayer g])
                (case insured w (gear_sessionID g) of None \<Rightarrow> [] | Some b \<Rightarrow> b)),
            profiles := (profiles w)(gear_pmcData g :=
              (profiles w (gear_pmcData g))\<lparr>InsuredItems :=
                 filter (\<lambda>i. itemId i \<noteq> item_id (itemToReturnToPlayer g))
                   (InsuredItems (profiles w (gear_pmcData g)))\<rparr>)\<rparr>"
    unfolding addGearToSend_result by simp
  then show ?thesis by simp
qed

lemma addGearToSend_bucket:
  assumes "addGearToSend g w = Inr w'"
  shows "bucketItems w' s t =
     (if s = gear_sessionID g \<and> t = gear_traderId g
      then bucketItems w s t @ [itemToReturnToPlayer g] else bucketItems w s t)"
proof (cases "s = gear_sessionID g")
  case False
  then show ?thesis by (simp add: bucketItems_def addGearToSend_insured [OF assms])
next
  case True
  show ?thesis
  proof (cases "insured w (gear_sessionID g)")
    case None
    with True show ?thesis by (simp add: bucketItems_def addGearToSend_insured [OF assms])
  next
    case (Some bs)
    with True show ?thesis
      by (simp add: bucketItems_def addGearToSend_insured [OF assms] update_conv')
  qed
qed

lemma processGear_result:
  "\<forall>g \<in> set gs. gear_pmcData g = r \<and> gear_sessionID g = sid \<Longrightarrow>
   \<exists>w'. processGear gs w = Inr w'
     \<and> InsuredItems (profiles w' r) =
         filter (\<lambda>i. itemId i \<notin> set (map (\<lambda>g. item_id (itemToReturnToPlayer g)) gs)) (InsuredItems (profiles w r))
     \<and> (\<forall>t. bucketItems w' sid t =
           bucketItems w sid t @ map itemToReturnToPlayer (filter (\<lambda>g. gear_traderId g = t) gs))"
proof (induction gs arbitrary: w)
  case Nil
  then show ?case by simp
next
  case (Cons g gs)
  obtain w1 where w1: "addGearToSend g w = Inr w1"
    using addGearToSend_result [of g w] by blast
  from Cons.prems have g: "gear_pmcData g = r" "gear_sessionID g = sid"
    and rest: "\<forall>g \<in> set gs. gear_pmcData g = r \<and> gear_sessionID g = sid" by auto
  from Cons.IH [OF rest, of w1] obtain w' where
    run: "processGear gs w1 = Inr w'"
    and ins: "InsuredItems (profiles w' r) =
         filter (\<lambda>i. itemId i \<notin> set (map (\<lambda>g. item_id (itemToReturnToPlayer g)) gs)) (InsuredItems (profiles w1 r))"
    and bk: "\<forall>t. bucketItems w' sid t =
           bucketItems w1 sid t @ map itemToReturnToPlayer (filter (\<lambda>g. gear_traderId g = t) gs)"
    by blast
  have p1: "InsuredItems (profiles w1 r) =
      filter (\<lambda>i. itemId i \<noteq> item_id (itemToReturnToPlayer g)) (InsuredItems (profiles w r))"
    using addGearToSend_profiles [OF w1] g by simp
  have "processGear (g # gs) w = Inr w'" using w1 run by simp
  moreover have "InsuredItems (profiles w' r) =
         filter (\<lambda>i. itemId i \<notin> set (map (\<lambda>g. item_id (itemToReturnToPlayer g)) (g # gs))) (InsuredItems (profiles w r))"
    unfolding ins p1 by (auto intro: filter_cong)
  moreover have "\<forall>t. bucketItems w' sid t =
           bucketItems w sid t @ map itemToReturnToPlayer (filter (\<lambda>g. gear_traderId g = t) (g # gs))"
    using bk addGearToSend_bucket [OF w1] g by simp
  ultimately show ?case by blast
qed

text \<open>
  C2. \<^verbatim>\<open>storeLostGear\<close> returns normally. Afterwards the profile's \<^verbatim>\<open>InsuredItems\<close> are
  the references that did not qualify, in their order, so no entry is left whose
  \<^verbatim>\<open>itemId\<close> is that of a qualifying item; and each trader's bucket of the session has
  received one item for each qualifying reference of that trader, in their order.
\<close>

theorem storeLostGear_consumes_references:
  "\<exists>w'. storeLostGear env pmcData offraidData preRaidGear sessionID playerDied w = Inr w'
     \<and> InsuredItems (profiles w' pmcData) =
         filter (\<lambda>i. \<not> qualifies_for_return env (createItemHashTable preRaidGear)
                        (createItemHashTable (profile_Inventory_items offraidData)) playerDied i)
           (InsuredItems (profiles w pmcData))
     \<and> (\<forall>i \<in> set (InsuredItems (profiles w pmcData)).
           qualifies_for_return env (createItemHashTable preRaidGear)
             (createItemHashTable (profile_Inventory_items offraidData)) playerDied i
           \<longrightarrow> itemId i \<notin> itemId ` set (InsuredItems (profiles w' pmcData)))
     \<and> (\<forall>t. map item_id (bucketItems w' sessionID t) =
           map item_id (bucketItems w sessionID t) @
           map itemId (filter (\<lambda>i. qualifies_for_return env (createItemHashTable preRaidGear)
                                     (createItemHashTable (profile_Inventory_items offraidData)) playerDied i
                                   \<and> tid i = t)
                         (InsuredItems (profiles w pmcData))))"
proof -
  let ?pre = "createItemHashTable preRaidGear"
  let ?off = "createItemHashTable (profile_Inventory_items offraidData)"
  let ?es = "InsuredItems (profiles w pmcData)"
  let ?gs = "equipmentToSendToPlayer env pmcData (profiles w pmcData) offraidData ?pre ?off
               sessionID playerDied ?es"
  let ?q = "qualifies_for_return env ?pre ?off playerDied"
  have keyed: "keyed_by_id ?pre" by (rule createItemHashTable_keyed)
  have refs: "\<forall>g \<in> set ?gs. gear_pmcData g = pmcData \<and> gear_sessionID g = sessionID"
    using candidates_refs [OF keyed] by blast
  from processGear_result [OF refs, of w] obtain w' where
    run: "processGear ?gs w = Inr w'"
    and ins: "InsuredItems (profiles w' pmcData) =
         filter (\<lambda>i. itemId i \<notin> set (map (\<lambda>g. item_id (itemToReturnToPlayer g)) ?gs)) ?es"
    and bk: "\<forall>t. bucketItems w' sessionID t =
           bucketItems w sessionID t @ map itemToReturnToPlayer (filter (\<lambda>g. gear_traderId g = t) ?gs)"
    by blast
  have "map fst (map (\<lambda>g. (item_id (itemToReturnToPlayer g), gear_traderId g, gear_pmcData g, gear_sessionID g)) ?gs)
       = map fst (map (\<lambda>e. (itemId e, tid e, pmcData, sessionID)) (filter ?q ?es))"
    by (simp only: candidates_map [OF keyed])
  then have ids: "map (\<lambda>g. item_id (itemToReturnToPlayer g)) ?gs = map itemId (filter ?q ?es)"
    by (simp add: comp_def)
  have same: "\<And>i j. itemId i = itemId j \<Longrightarrow> ?q i = ?q j"
    by (rule qualifies_same_id)
  have gone: "(itemId i \<in> set (map itemId (filter ?q ?es))) \<longleftrightarrow> ?q i" if "i \<in> set ?es" for i
  proof
    assume "itemId i \<in> set (map itemId (filter ?q ?es))"
    then obtain e where "e \<in> set ?es" "?q e" "itemId i = itemId e" by auto
    with same [of i e] show "?q i" by simp
  next
    assume "?q i"
    with that have "i \<in> set (filter ?q ?es)" by simp
    then show "itemId i \<in> set (map itemId (filter ?q ?es))" by (simp only: set_map) (rule imageI)
  qed
  have 1: "storeLostGear env pmcData offraidData preRaidGear sessionID playerDied w = Inr w'"
    using run by (simp add: storeLostGear_def Let_def)
  have 2: "InsuredItems (profiles w' pmcData) = filter (\<lambda>i. \<not> ?q i) ?es"
    unfolding ins ids by (rule filter_cong [OF refl]) (simp only: gone)
  have 3: "\<forall>i \<in> set ?es. ?q i \<longrightarrow> itemId i \<notin> itemId ` set (InsuredItems (profiles w' pmcData))"
  proof (intro ballI impI notI)
    fix i assume "i \<in> set ?es" "?q i" "itemId i \<in> itemId ` set (InsuredItems (profiles w' pmcData))"
    then obtain j where "j \<in> set (filter (\<lambda>i. \<not> ?q i) ?es)" "itemId i = itemId j"
      unfolding 2 by blast
    then have "\<not> ?q j" "itemId i = itemId j" by simp_all
    with same [of i j] \<open>?q i\<close> show False by simp
  qed
  have 4: "\<forall>t. map item_id (bucketItems w' sessionID t) =
           map item_id (bucketItems w sessionID t) @ map itemId (filter (\<lambda>i. ?q i \<and> tid i = t) ?es)"
  proof
    fix t
    have "map item_id (bucketItems w' sessionID t) =
          map item_id (bucketItems w sessionID t) @
          map (\<lambda>g. item_id (itemToReturnToPlayer g)) (filter (\<lambda>g. gear_traderId g = t) ?gs)"
      using bk by (simp add: comp_def)
    then show "map item_id (bucketItems w' sessionID t) =
           map item_id (bucketItems w sessionID t) @ map itemId (filter (\<lambda>i. ?q i \<and> tid i = t) ?es)"
      by (simp only: candidates_ids [OF keyed])
  qed
  from 1 2 3 4 show ?thesis by blast
qed

theorem storeLostGear_consumes_references_witness:
  "\<exists>w'. storeLostGear env0 0 offraid0 [itemA, itemB] ''session'' False world0 = Inr w'
     \<and> InsuredItems (profiles world0 0) = [insuredA, insuredB]
     \<and> InsuredItems (profiles w' 0) = [insuredB]
     \<and> itemId insuredA \<notin> itemId ` set (InsuredItems (profiles w' 0))
     \<and> map item_id (bucketItems w' ''session'' ''prapor'') = [''a'']"
proof -
  let ?q = "qualifies_for_return env0 (createItemHashTable [itemA, itemB])
              (createItemHashTable (profile_Inventory_items offraid0)) False"
  have qa: "?q insuredA"
    by (simp add: qualifies_for_return_def createItemHashTable_def blacklisted_def env0_def
        config0_def itemA_def itemB_def insuredA_def offraid0_def)
  have qb: "\<not> ?q insuredB"
    by (simp add: qualifies_for_return_def createItemHashTable_def blacklisted_def env0_def
        config0_def itemA_def itemB_def insuredB_def offraid0_def)
  have es: "InsuredItems (profiles world0 0) = [insuredA, insuredB]"
    by (simp add: world0_def profile0_def)
  have t: "tid insuredA = ''prapor''" and i: "itemId insuredA = ''a''"
    by (simp_all add: insuredA_def)
  have b0: "bucketItems world0 ''session'' ''prapor'' = []"
    by (simp add: bucketItems_def world0_def emptyWorld_def)
  obtain w' where c:
    "storeLostGear env0 0 offraid0 [itemA, itemB] ''session'' False world0 = Inr w'
     \<and> InsuredItems (profiles w' 0) = filter (\<lambda>i. \<not> ?q i) (InsuredItems (profiles world0 0))
     \<and> (\<forall>i \<in> set (InsuredItems (profiles world0 0)).
           ?q i \<longrightarrow> itemId i \<notin> itemId ` set (InsuredItems (profiles w' 0)))
     \<and> (\<forall>t. map item_id (bucketItems w' ''session'' t) =
           map item_id (bucketItems world0 ''session'' t) @
           map itemId (filter (\<lambda>i. ?q i \<and> tid i = t) (InsuredItems (profiles world0 0))))"
    using storeLostGear_consumes_references [of env0 0 offraid0 "[itemA, itemB]" "''session''" False world0] ..
  note c1 = c [THEN conjunct1]
  note c2 = c [THEN conjunct2, THEN conjunct1]
  note c3 = c [THEN conjunct2, THEN conjunct2, THEN conjunct1]
  note c4 = c [THEN conjunct2, THEN conjunct2, THEN conjunct2, THEN spec, of "''prapor''"]
  have r2: "InsuredItems (profiles w' 0) = [insuredB]"
    unfolding c2 es using qa qb by simp
  have r4: "map item_id (bucketItems w' ''session'' ''prapor'') = [''a'']"
    unfolding c4 es b0 using qa qb t i by simp
  have r3: "itemId insuredA \<notin> itemId ` set (InsuredItems (profiles w' 0))"
    using c3 qa by (simp add: es)
  show ?thesis by (rule exI [of _ w']) (intro conjI c1 es r2 r3 r4)
qed


section \<open>Sending the insured items\<close>

text \<open>
  The in-place loop of \<^verbatim>\<open>removeLocationProperty\<close> never changes an \<^verbatim>\<open>_id\<close> or a
  \<^verbatim>\<open>parentId\<close>, so the parents found are those of the bucket as it was.
\<close>

lemma removeLocationProperty_loop_map:
  "removeLocationProperty_loop seen rest =
     seen @ map (\<lambda>y. if parentId y \<in> (\<lambda>x. Some (item_id x)) ` set (seen @ rest) then y
                       else y\<lparr>slotId := Some ''hideout'', location := None\<rparr>) rest"
proof (induction rest arbitrary: seen)
  case Nil
  show ?case by simp
next
  case (Cons it rest)
  let ?it' = "if find (\<lambda>x. Some (item_id x) = parentId it) (seen @ it # rest) = None
              then it\<lparr>slotId := Some ''hideout'', location := None\<rparr> else it"
  have ids: "(\<lambda>x. Some (item_id x)) ` set ((seen @ [?it']) @ rest) = (\<lambda>x. Some (item_id x)) ` set (seen @ it # rest)"
    by auto
  have found: "(find (\<lambda>x. Some (item_id x) = parentId it) (seen @ it # rest) = None)
                 \<longleftrightarrow> parentId it \<notin> (\<lambda>x. Some (item_id x)) ` set (seen @ it # rest)"
    unfolding find_None_iff by (metis (mono_tags, lifting) image_iff)
  have it': "?it' = (if parentId it \<in> (\<lambda>x. Some (item_id x)) ` set (seen @ it # rest) then it
                       else it\<lparr>slotId := Some ''hideout'', location := None\<rparr>)"
    unfolding found
    by (cases "parentId it \<in> (\<lambda>x. Some (item_id x)) ` set (seen @ it # rest)")
       (simp_all only: if_True if_False not_True_eq_False not_False_eq_True)
  have "removeLocationProperty_loop seen (it # rest) = removeLocationProperty_loop (seen @ [?it']) rest"
    by (simp add: Let_def)
  also have "\<dots> = (seen @ [?it']) @ map (\<lambda>y. if parentId y \<in> (\<lambda>x. Some (item_id x)) ` set ((seen @ [?it']) @ rest) then y
                       else y\<lparr>slotId := Some ''hideout'', location := None\<rparr>) rest"
    by (rule Cons.IH)
  also have "\<dots> = seen @ map (\<lambda>y. if parentId y \<in> (\<lambda>x. Some (item_id x)) ` set (seen @ it # rest) then y
                       else y\<lparr>slotId := Some ''hideout'', location := None\<rparr>) (it # rest)"
    unfolding ids unfolding it' by (simp only: list.map append_assoc append_Cons append_Nil)
  finally show ?case .
qed

lemma removeLocationProperty_bucket:
  assumes "insured w sessionId = Some buckets" and "map_of buckets traderId = Some itms"
  shows "removeLocationProperty sessionId traderId w =
           Inr (w\<lparr>insured := (insured w)(sessionId \<mapsto>
                  AList.update traderId (removeLocationProperty_loop [] itms) buckets)\<rparr>)"
  using assms by (simp add: removeLocationProperty_def getInsurance_def)

text \<open>The bucket after the pass, item by item.\<close>

lemma removeLocationProperty_pass:
  assumes "insured w sessionId = Some buckets" and "map_of buckets traderId = Some itms"
  shows "\<exists>w'. removeLocationProperty sessionId traderId w = Inr w'
          \<and> getInsuranceItems w' sessionId traderId =
              Inr (Some (map (\<lambda>item. if (\<exists>x \<in> set itms. Some (item_id x) = parentId item) then item
                                     else item\<lparr>slotId := Some ''hideout'', location := None\<rparr>) itms))"
proof -
  let ?itms' = "removeLocationProperty_loop [] itms"
  let ?w' = "w\<lparr>insured := (insured w)(sessionId \<mapsto> AList.update traderId ?itms' buckets)\<rparr>"
  have 1: "removeLocationProperty sessionId traderId w = Inr ?w'"
    by (rule removeLocationProperty_bucket [OF assms])
  have 2: "getInsuranceItems ?w' sessionId traderId = Inr (Some ?itms')"
    by (simp add: getInsuranceItems_def update_conv')
  have mem: "\<And>p. (p \<in> (\<lambda>x. Some (item_id x)) ` set itms) \<longleftrightarrow> (\<exists>x \<in> set itms. Some (item_id x) = p)"
    by blast
  have 3: "?itms' = map (\<lambda>item. if (\<exists>x \<in> set itms. Some (item_id x) = parentId item) then item
                                     else item\<lparr>slotId := Some ''hideout'', location := None\<rparr>) itms"
    unfolding removeLocationProperty_loop_map by (simp only: mem append_Nil)
  from 1 2 3 show ?thesis by (intro exI [of _ ?w'] conjI) simp_all
qed

text \<open>
  C10. The \<^verbatim>\<open>removeLocationProperty\<close> pass of \<^verbatim>\<open>sendInsuredItems\<close> over a trader's bucket, in
  which no item is recorded as its own parent, returns normally and leaves a bucket of
  the same items in the same places where every item whose \<^verbatim>\<open>parentId\<close> is not the \<^verbatim>\<open>_id\<close>
  of any other item of the bucket has the \<^verbatim>\<open>slotId\<close> \<^verbatim>\<open>hideout\<close> and no \<^verbatim>\<open>location\<close>, and
  every item whose parent is in the bucket is as it was, \<^verbatim>\<open>slotId\<close> and \<^verbatim>\<open>location\<close>
  included.
\<close>

theorem removeLocationProperty_roots:
  assumes "insured w sessionId = Some buckets" and "map_of buckets traderId = Some itms"
    and "\<forall>item \<in> set itms. parentId item \<noteq> Some (item_id item)"
  shows "\<exists>w' itms'. removeLocationProperty sessionId traderId w = Inr w'
          \<and> getInsuranceItems w' sessionId traderId = Inr (Some itms')
          \<and> length itms' = length itms
          \<and> (\<forall>i < length itms.
                ((\<forall>j < length itms. j \<noteq> i \<longrightarrow> Some (item_id (itms ! j)) \<noteq> parentId (itms ! i)) \<longrightarrow>
                   slotId (itms' ! i) = Some ''hideout'' \<and> location (itms' ! i) = None
                   \<and> itms' ! i = (itms ! i)\<lparr>slotId := Some ''hideout'', location := None\<rparr>)
              \<and> ((\<exists>j < length itms. Some (item_id (itms ! j)) = parentId (itms ! i)) \<longrightarrow>
                   itms' ! i = itms ! i
                   \<and> slotId (itms' ! i) = slotId (itms ! i) \<and> location (itms' ! i) = location (itms ! i)))"
proof -
  let ?f = "\<lambda>item. if (\<exists>x \<in> set itms. Some (item_id x) = parentId item) then item
                    else item\<lparr>slotId := Some ''hideout'', location := None\<rparr>"
  from removeLocationProperty_pass [OF assms(1,2)] obtain w' where
    run: "removeLocationProperty sessionId traderId w = Inr w'"
    and bucket: "getInsuranceItems w' sessionId traderId = Inr (Some (map ?f itms))"
    by blast
  have len: "length (map ?f itms) = length itms"
    by simp
  have each: "\<forall>i < length itms.
              ((\<forall>j < length itms. j \<noteq> i \<longrightarrow> Some (item_id (itms ! j)) \<noteq> parentId (itms ! i)) \<longrightarrow>
                   slotId (map ?f itms ! i) = Some ''hideout'' \<and> location (map ?f itms ! i) = None
                   \<and> map ?f itms ! i = (itms ! i)\<lparr>slotId := Some ''hideout'', location := None\<rparr>)
              \<and> ((\<exists>j < length itms. Some (item_id (itms ! j)) = parentId (itms ! i)) \<longrightarrow>
                   map ?f itms ! i = itms ! i
                   \<and> slotId (map ?f itms ! i) = slotId (itms ! i) \<and> location (map ?f itms ! i) = location (itms ! i))"
  proof (intro allI impI)
    fix i assume i: "i < length itms"
    have own: "Some (item_id (itms ! i)) \<noteq> parentId (itms ! i)"
      using assms(3) i nth_mem [OF i] by metis
    have present: "(\<exists>x \<in> set itms. Some (item_id x) = parentId (itms ! i))
                     \<longleftrightarrow> (\<exists>j < length itms. Some (item_id (itms ! j)) = parentId (itms ! i))"
    proof
      assume "\<exists>x \<in> set itms. Some (item_id x) = parentId (itms ! i)"
      then obtain x where "x \<in> set itms" and x: "Some (item_id x) = parentId (itms ! i)"
        by blast
      then obtain j where "j < length itms" "itms ! j = x"
        by (auto simp: in_set_conv_nth)
      with x show "\<exists>j < length itms. Some (item_id (itms ! j)) = parentId (itms ! i)"
        by blast
    next
      assume "\<exists>j < length itms. Some (item_id (itms ! j)) = parentId (itms ! i)"
      then obtain j where j: "j < length itms" "Some (item_id (itms ! j)) = parentId (itms ! i)"
        by blast
      from nth_mem [OF j(1)] j(2)
      show "\<exists>x \<in> set itms. Some (item_id x) = parentId (itms ! i)"
        by blast
    qed
    have other: "(\<exists>j < length itms. Some (item_id (itms ! j)) = parentId (itms ! i))
                     \<longleftrightarrow> \<not> (\<forall>j < length itms. j \<noteq> i \<longrightarrow> Some (item_id (itms ! j)) \<noteq> parentId (itms ! i))"
      using own by blast
    have at: "map ?f itms ! i = ?f (itms ! i)"
      using i by (rule nth_map)
    show "((\<forall>j < length itms. j \<noteq> i \<longrightarrow> Some (item_id (itms ! j)) \<noteq> parentId (itms ! i)) \<longrightarrow>
                   slotId (map ?f itms ! i) = Some ''hideout'' \<and> location (map ?f itms ! i) = None
                   \<and> map ?f itms ! i = (itms ! i)\<lparr>slotId := Some ''hideout'', location := None\<rparr>)
              \<and> ((\<exists>j < length itms. Some (item_id (itms ! j)) = parentId (itms ! i)) \<longrightarrow>
                   map ?f itms ! i = itms ! i
                   \<and> slotId (map ?f itms ! i) = slotId (itms ! i) \<and> location (map ?f itms ! i) = location (itms ! i))"
    proof (cases "\<exists>j < length itms. Some (item_id (itms ! j)) = parentId (itms ! i)")
      case True
      with other have no: "\<not> (\<forall>j < length itms. j \<noteq> i \<longrightarrow> Some (item_id (itms ! j)) \<noteq> parentId (itms ! i))"
        by simp
      from True present have "?f (itms ! i) = itms ! i"
        by simp
      with at have same: "map ?f itms ! i = itms ! i"
        by simp
      have A: "(\<forall>j < length itms. j \<noteq> i \<longrightarrow> Some (item_id (itms ! j)) \<noteq> parentId (itms ! i)) \<longrightarrow>
                   slotId (map ?f itms ! i) = Some ''hideout'' \<and> location (map ?f itms ! i) = None
                   \<and> map ?f itms ! i = (itms ! i)\<lparr>slotId := Some ''hideout'', location := None\<rparr>"
      proof
        assume "\<forall>j < length itms. j \<noteq> i \<longrightarrow> Some (item_id (itms ! j)) \<noteq> parentId (itms ! i)"
        with no show "slotId (map ?f itms ! i) = Some ''hideout'' \<and> location (map ?f itms ! i) = None
                   \<and> map ?f itms ! i = (itms ! i)\<lparr>slotId := Some ''hideout'', location := None\<rparr>"
          by (rule notE)
      qed
      have B: "(\<exists>j < length itms. Some (item_id (itms ! j)) = parentId (itms ! i)) \<longrightarrow>
                   map ?f itms ! i = itms ! i
                   \<and> slotId (map ?f itms ! i) = slotId (itms ! i) \<and> location (map ?f itms ! i) = location (itms ! i)"
        by (simp only: same simp_thms)
      from A B show ?thesis by (rule conjI)
    next
      case False
      with present have "?f (itms ! i) = (itms ! i)\<lparr>slotId := Some ''hideout'', location := None\<rparr>"
        by simp
      with at have root: "map ?f itms ! i = (itms ! i)\<lparr>slotId := Some ''hideout'', location := None\<rparr>"
        by simp
      have A: "(\<forall>j < length itms. j \<noteq> i \<longrightarrow> Some (item_id (itms ! j)) \<noteq> parentId (itms ! i)) \<longrightarrow>
                   slotId (map ?f itms ! i) = Some ''hideout'' \<and> location (map ?f itms ! i) = None
                   \<and> map ?f itms ! i = (itms ! i)\<lparr>slotId := Some ''hideout'', location := None\<rparr>"
        unfolding root by simp
      have B: "(\<exists>j < length itms. Some (item_id (itms ! j)) = parentId (itms ! i)) \<longrightarrow>
                   map ?f itms ! i = itms ! i
                   \<and> slotId (map ?f itms ! i) = slotId (itms ! i) \<and> location (map ?f itms ! i) = location (itms ! i)"
      proof
        assume "\<exists>j < length itms. Some (item_id (itms ! j)) = parentId (itms ! i)"
        with False show "map ?f itms ! i = itms ! i
                   \<and> slotId (map ?f itms ! i) = slotId (itms ! i) \<and> location (map ?f itms ! i) = location (itms ! i)"
          by (rule notE)
      qed
      from A B show ?thesis by (rule conjI)
    qed
  qed
  show ?thesis
    by (rule exI [of _ w'], rule exI [of _ "map ?f itms"]) (intro conjI run bucket len each)
qed

theorem removeLocationProperty_roots_witness:
  "insured worldBucket ''session'' = Some [(''prapor'', [itemA, itemChild])]
   \<and> map_of [(''prapor'', [itemA, itemChild])] ''prapor'' = Some [itemA, itemChild]
   \<and> parentId itemA \<noteq> Some (item_id itemA)
   \<and> parentId itemChild \<noteq> Some (item_id itemChild)
   \<and> (\<exists>w' itms'. removeLocationProperty ''session'' ''prapor'' worldBucket = Inr w'
          \<and> getInsuranceItems w' ''session'' ''prapor'' = Inr (Some itms')
          \<and> length itms' = 2
          \<and> slotId (itms' ! 0) = Some ''hideout'' \<and> location (itms' ! 0) = None
          \<and> itms' ! 1 = itemChild)"
proof -
  have b: "insured worldBucket ''session'' = Some [(''prapor'', [itemA, itemChild])]"
    by (simp add: worldBucket_def emptyWorld_def)
  have m: "map_of [(''prapor'', [itemA, itemChild])] ''prapor'' = Some [itemA, itemChild]"
    by simp
  have ns: "\<forall>item \<in> set [itemA, itemChild]. parentId item \<noteq> Some (item_id item)"
    by (simp add: itemA_def itemChild_def)
  have root: "\<forall>j < length [itemA, itemChild]. j \<noteq> 0 \<longrightarrow>
                Some (item_id ([itemA, itemChild] ! j)) \<noteq> parentId ([itemA, itemChild] ! 0)"
    by (simp add: itemA_def itemChild_def less_Suc_eq)
  have child: "\<exists>j < length [itemA, itemChild].
                Some (item_id ([itemA, itemChild] ! j)) = parentId ([itemA, itemChild] ! 1)"
    by (rule exI [of _ 0]) (simp add: itemA_def itemChild_def)
  from removeLocationProperty_roots [OF b m ns] obtain w' itms' where
    run: "removeLocationProperty ''session'' ''prapor'' worldBucket = Inr w'"
    and bucket: "getInsuranceItems w' ''session'' ''prapor'' = Inr (Some itms')"
    and len: "length itms' = length [itemA, itemChild]"
    and each: "\<forall>i < length [itemA, itemChild].
                ((\<forall>j < length [itemA, itemChild]. j \<noteq> i \<longrightarrow>
                     Some (item_id ([itemA, itemChild] ! j)) \<noteq> parentId ([itemA, itemChild] ! i)) \<longrightarrow>
                   slotId (itms' ! i) = Some ''hideout'' \<and> location (itms' ! i) = None
                   \<and> itms' ! i = ([itemA, itemChild] ! i)\<lparr>slotId := Some ''hideout'', location := None\<rparr>)
              \<and> ((\<exists>j < length [itemA, itemChild].
                     Some (item_id ([itemA, itemChild] ! j)) = parentId ([itemA, itemChild] ! i)) \<longrightarrow>
                   itms' ! i = [itemA, itemChild] ! i
                   \<and> slotId (itms' ! i) = slotId ([itemA, itemChild] ! i)
                   \<and> location (itms' ! i) = location ([itemA, itemChild] ! i))"
    by (elim exE conjE)
  have i0: "(0::nat) < length [itemA, itemChild]" and i1: "(1::nat) < length [itemA, itemChild]"
    by simp_all
  from each [THEN spec, THEN mp, OF i0, THEN conjunct1, THEN mp, OF root]
  have r0: "slotId (itms' ! 0) = Some ''hideout''" "location (itms' ! 0) = None"
    by simp_all
  from each [THEN spec, THEN mp, OF i1, THEN conjunct2, THEN mp, OF child]
  have r1: "itms' ! 1 = itemChild"
    by simp
  have l2: "length itms' = 2"
    using len by simp
  have nsA: "parentId itemA \<noteq> Some (item_id itemA)"
    and nsC: "parentId itemChild \<noteq> Some (item_id itemChild)"
    by (simp_all add: itemA_def itemChild_def)
  show ?thesis
    by (intro conjI b m nsA nsC exI [of _ w'] exI [of _ itms'] run bucket l2 r0 r1)
qed

text \<open>What the steps of \<^verbatim>\<open>sendInsuredItems\<close> leave alone.\<close>

lemma getInsuranceReturnTimestamp_frame:
  "insured (snd (getInsuranceReturnTimestamp env p tb w)) = insured w"
  "saveProfiles (snd (getInsuranceReturnTimestamp env p tb w)) = saveProfiles w"
  "dialogues (snd (getInsuranceReturnTimestamp env p tb w)) = dialogues w"
  "filter is_Error (logs (snd (getInsuranceReturnTimestamp env p tb w))) = filter is_Error (logs w)"
  by (simp_all add: getInsuranceReturnTimestamp_def Let_def)

lemma removeLocationProperty_result:
  assumes "removeLocationProperty sid k w = Inr w'"
  obtains buckets itms where "insured w sid = Some buckets" and "map_of buckets k = Some itms"
    and "w' = w\<lparr>insured := (insured w)(sid \<mapsto>
                  AList.update k (removeLocationProperty_loop [] itms) buckets)\<rparr>"
  using assms
  by (auto simp: removeLocationProperty_def getInsurance_def split: option.splits)

lemma removeLocationProperty_frame:
  assumes "removeLocationProperty sid k w = Inr w'"
  shows "saveProfiles w' = saveProfiles w \<and> dialogues w' = dialogues w \<and> logs w' = logs w
    \<and> insured w' sid \<noteq> None
    \<and> (\<forall>t. k \<noteq> t \<longrightarrow> getInsuranceItems w' sid t = getInsuranceItems w sid t)"
proof -
  from assms obtain buckets itms where b: "insured w sid = Some buckets"
    and w': "w' = w\<lparr>insured := (insured w)(sid \<mapsto>
                  AList.update k (removeLocationProperty_loop [] itms) buckets)\<rparr>"
    by (rule removeLocationProperty_result)
  show ?thesis using b by (simp add: w' getInsuranceItems_def update_conv')
qed

text \<open>Reading \<^verbatim>\<open>insuranceStart\<close> of a missing template set throws.\<close>

lemma sendInsuredItems_body_throws:
  assumes "traders env k = Some tr" and "dialogue tr = None"
  shows "sendInsuredItems_body env p sid m k w =
           (Some TypeError, snd (getInsuranceReturnTimestamp env p (getTrader env k sid) w))"
  using assms by (simp add: sendInsuredItems_body_def Let_def case_prod_beta)

lemma sendInsuredItems_body_other:
  assumes "k \<noteq> t"
  shows "getInsuranceItems (snd (sendInsuredItems_body env p sid m k w)) sid t = getInsuranceItems w sid t"
    and "filter (\<lambda>r. ins_traderId r = t) (saveProfiles (snd (sendInsuredItems_body env p sid m k w)) sid)
          = filter (\<lambda>r. ins_traderId r = t) (saveProfiles w sid)"
    and "filter (\<lambda>d. fst d = t) (dialogues (snd (sendInsuredItems_body env p sid m k w)))
          = filter (\<lambda>d. fst d = t) (dialogues w)"
    and "filter is_Error (logs (snd (sendInsuredItems_body env p sid m k w))) = filter is_Error (logs w)"
proof -
  let ?w1 = "snd (getInsuranceReturnTimestamp env p (getTrader env k sid) w)"
  have g1: "getInsuranceItems ?w1 sid t = getInsuranceItems w sid t"
    by (simp add: getInsuranceItems_def getInsuranceReturnTimestamp_frame)
  show "getInsuranceItems (snd (sendInsuredItems_body env p sid m k w)) sid t = getInsuranceItems w sid t"
    using assms g1
    by (auto simp: sendInsuredItems_body_def Let_def case_prod_beta getInsurance_def
        getInsuranceItems_def getInsuranceReturnTimestamp_frame
        dest!: removeLocationProperty_frame split: option.splits sum.splits)
  show "filter (\<lambda>r. ins_traderId r = t) (saveProfiles (snd (sendInsuredItems_body env p sid m k w)) sid)
          = filter (\<lambda>r. ins_traderId r = t) (saveProfiles w sid)"
    using assms
    by (auto simp: sendInsuredItems_body_def Let_def case_prod_beta getInsurance_def
        getInsuranceReturnTimestamp_frame
        dest!: removeLocationProperty_frame split: option.splits sum.splits)
  show "filter (\<lambda>d. fst d = t) (dialogues (snd (sendInsuredItems_body env p sid m k w)))
          = filter (\<lambda>d. fst d = t) (dialogues w)"
    using assms
    by (auto simp: sendInsuredItems_body_def Let_def case_prod_beta getInsurance_def
        getInsuranceReturnTimestamp_frame
        dest!: removeLocationProperty_frame split: option.splits sum.splits)
  show "filter is_Error (logs (snd (sendInsuredItems_body env p sid m k w))) = filter is_Error (logs w)"
    by (auto simp: sendInsuredItems_body_def Let_def case_prod_beta getInsurance_def
        getInsuranceReturnTimestamp_frame
        dest!: removeLocationProperty_frame split: option.splits sum.splits)
qed

lemma sendInsuredItems_body_untouched:
  assumes "traders env t = Some tr" and "dialogue tr = None"
  shows "getInsuranceItems (snd (sendInsuredItems_body env p sid m k w)) sid t = getInsuranceItems w sid t
    \<and> filter (\<lambda>r. ins_traderId r = t) (saveProfiles (snd (sendInsuredItems_body env p sid m k w)) sid)
          = filter (\<lambda>r. ins_traderId r = t) (saveProfiles w sid)
    \<and> filter (\<lambda>d. fst d = t) (dialogues (snd (sendInsuredItems_body env p sid m k w)))
          = filter (\<lambda>d. fst d = t) (dialogues w)
    \<and> filter is_Error (logs (snd (sendInsuredItems_body env p sid m k w))) = filter is_Error (logs w)"
proof (cases "k = t")
  case True
  then show ?thesis
    by (simp add: sendInsuredItems_body_throws [OF assms] getInsuranceReturnTimestamp_frame
        getInsuranceItems_def)
next
  case False
  then show ?thesis by (simp add: sendInsuredItems_body_other)
qed

lemma sendInsuredItems_loop_untouched:
  assumes "traders env t = Some tr" and "dialogue tr = None"
  shows "getInsuranceItems (snd (sendInsuredItems_loop env p sid m ks w)) sid t = getInsuranceItems w sid t
    \<and> filter (\<lambda>r. ins_traderId r = t) (saveProfiles (snd (sendInsuredItems_loop env p sid m ks w)) sid)
          = filter (\<lambda>r. ins_traderId r = t) (saveProfiles w sid)
    \<and> filter (\<lambda>d. fst d = t) (dialogues (snd (sendInsuredItems_loop env p sid m ks w)))
          = filter (\<lambda>d. fst d = t) (dialogues w)
    \<and> filter is_Error (logs (snd (sendInsuredItems_loop env p sid m ks w))) = filter is_Error (logs w)"
proof (induction ks arbitrary: w)
  case Nil
  show ?case by simp
next
  case (Cons k ks)
  obtain r w' where b: "sendInsuredItems_body env p sid m k w = (r, w')"
    by (cases "sendInsuredItems_body env p sid m k w")
  have u: "getInsuranceItems w' sid t = getInsuranceItems w sid t
    \<and> filter (\<lambda>r. ins_traderId r = t) (saveProfiles w' sid) = filter (\<lambda>r. ins_traderId r = t) (saveProfiles w sid)
    \<and> filter (\<lambda>d. fst d = t) (dialogues w') = filter (\<lambda>d. fst d = t) (dialogues w)
    \<and> filter is_Error (logs w') = filter is_Error (logs w)"
    using sendInsuredItems_body_untouched [OF assms, of p sid m k w] b by simp
  show ?case
  proof (cases r)
    case None
    with b have "sendInsuredItems_loop env p sid m (k # ks) w = sendInsuredItems_loop env p sid m ks w'"
      by simp
    with Cons.IH [of w'] u show ?thesis by simp
  next
    case (Some e)
    with b have "sendInsuredItems_loop env p sid m (k # ks) w = (Some e, w')" by simp
    with u show ?thesis by simp
  qed
qed

lemma sendInsuredItems_loop_throws:
  assumes "traders env t = Some tr" and "dialogue tr = None" and "t \<in> set ks"
  shows "fst (sendInsuredItems_loop env p sid m ks w) = Some TypeError"
  using assms(3)
proof (induction ks arbitrary: w)
  case Nil
  then show ?case by simp
next
  case (Cons k ks)
  obtain r w' where b: "sendInsuredItems_body env p sid m k w = (r, w')"
    by (cases "sendInsuredItems_body env p sid m k w")
  show ?case
  proof (cases r)
    case (Some e)
    then have "r = Some TypeError" by (cases e) simp
    with b show ?thesis by simp
  next
    case None
    with b sendInsuredItems_body_throws [OF assms(1,2), of p sid m w] have "k \<noteq> t" by auto
    with Cons.prems have "t \<in> set ks" by simp
    with Cons.IH [of w'] b None show ?thesis by simp
  qed
qed

text \<open>
  C8, as amended. When the registry of a player holds a bucket for a trader whose dialogue
  template set is missing, \<^verbatim>\<open>sendInsuredItems\<close> throws a \<^verbatim>\<open>TypeError\<close>. It stores no
  dialogue message and no insurance record for that trader and logs no error; the
  trader's bucket stays in the registry as it was, which is not cleared.
\<close>

theorem sendInsuredItems_missing_dialogue:
  assumes "insured w sessionID = Some buckets" and "map_of buckets traderId = Some itms"
    and "traders env traderId = Some trader" and "dialogue trader = None"
  shows "fst (sendInsuredItems env pmcData sessionID mapId w) = Some TypeError
    \<and> getInsuranceItems (snd (sendInsuredItems env pmcData sessionID mapId w)) sessionID traderId = Inr (Some itms)
    \<and> filter (\<lambda>r. ins_traderId r = traderId) (saveProfiles (snd (sendInsuredItems env pmcData sessionID mapId w)) sessionID)
         = filter (\<lambda>r. ins_traderId r = traderId) (saveProfiles w sessionID)
    \<and> filter (\<lambda>d. fst d = traderId) (dialogues (snd (sendInsuredItems env pmcData sessionID mapId w)))
         = filter (\<lambda>d. fst d = traderId) (dialogues w)
    \<and> filter is_Error (logs (snd (sendInsuredItems env pmcData sessionID mapId w))) = filter is_Error (logs w)"
proof -
  let ?ks = "map fst buckets"
  let ?run = "sendInsuredItems_loop env pmcData sessionID mapId ?ks w"
  from assms(2) have "traderId \<in> set ?ks"
    by (metis map_of_SomeD fst_conv image_eqI set_map)
  then have thrown: "fst ?run = Some TypeError"
    by (rule sendInsuredItems_loop_throws [OF assms(3,4)])
  then have whole: "sendInsuredItems env pmcData sessionID mapId w = (Some TypeError, snd ?run)"
    using assms(1) by (cases ?run) (simp add: sendInsuredItems_def getInsurance_def)
  have "getInsuranceItems w sessionID traderId = Inr (Some itms)"
    using assms(1,2) by (simp add: getInsuranceItems_def)
  with sendInsuredItems_loop_untouched [OF assms(3,4), of pmcData sessionID mapId ?ks w] whole
  show ?thesis by simp
qed

theorem sendInsuredItems_missing_dialogue_witness:
  "insured worldTherapist ''session'' = Some [(''therapist'', [itemA])]
   \<and> map_of [(''therapist'', [itemA])] ''therapist'' = Some [itemA]
   \<and> traders env0 ''therapist'' = Some \<lparr>dialogue = None\<rparr>
   \<and> fst (sendInsuredItems env0 profile0 ''session'' ''factory4_day'' worldTherapist) = Some TypeError
   \<and> getInsuranceItems (snd (sendInsuredItems env0 profile0 ''session'' ''factory4_day'' worldTherapist))
        ''session'' ''therapist'' = Inr (Some [itemA])"
proof -
  have b: "insured worldTherapist ''session'' = Some [(''therapist'', [itemA])]"
    by (simp add: worldTherapist_def emptyWorld_def)
  have m: "map_of [(''therapist'', [itemA])] ''therapist'' = Some [itemA]"
    by simp
  have t: "traders env0 ''therapist'' = Some \<lparr>dialogue = None\<rparr>"
    by (simp add: env0_def)
  have d: "dialogue \<lparr>dialogue = None\<rparr> = None"
    by simp
  from sendInsuredItems_missing_dialogue [OF b m t d, of profile0 "''factory4_day''"] b m t
  show ?thesis by (intro conjI) simp_all
qed

text \<open>
  The bucket of a trader without dialogue templates: \<^verbatim>\<open>sendInsuredItems\<close> throws, logs
  nothing, and the registry still holds the bucket.
\<close>

theorem sendInsuredItems_counterexample:
  "fst (sendInsuredItems env0 profile0 ''session'' ''factory4_day'' worldTherapist) = Some TypeError
   \<and> insured (snd (sendInsuredItems env0 profile0 ''session'' ''factory4_day'' worldTherapist)) ''session''
       = Some [(''therapist'', [itemA])]
   \<and> logs (snd (sendInsuredItems env0 profile0 ''session'' ''factory4_day'' worldTherapist)) = []"
proof -
  have t: "traders env0 ''therapist'' = Some \<lparr>dialogue = None\<rparr>"
    by (simp add: env0_def)
  have d: "dialogue \<lparr>dialogue = None\<rparr> = None"
    by simp
  have o: "\<not> 0 < returnTimeOverrideSeconds (insuranceConfig env0)"
    by (simp add: env0_def config0_def)
  have run: "sendInsuredItems env0 profile0 ''session'' ''factory4_day'' worldTherapist =
          (Some TypeError,
           snd (getInsuranceReturnTimestamp env0 profile0 (getTrader env0 ''therapist'' ''session'') worldTherapist))"
    by (simp add: sendInsuredItems_def getInsurance_def worldTherapist_def emptyWorld_def
        sendInsuredItems_body_throws [OF t d])
  show ?thesis
    unfolding run using o
    by (simp add: getInsuranceReturnTimestamp_def Let_def worldTherapist_def emptyWorld_def)
qed


end
